theory Spec2Isabelle
  imports Main "HOL-Library.Sublist" "HOL-Library.AList" "HOL-Library.Stream"
    "HOL-Library.Code_Target_Nat"
begin

section \<open>Strings of the host language\<close>

text \<open>
  A JavaScript string is a sequence of UTF-16 code units, and \<open>length\<close>, \<open>includes\<close>,
  \<open>slice\<close> and the regular expressions of the source all work on code units. A string
  is therefore a list of natural numbers. \<open>asc\<close> embeds an ASCII literal; every other
  character of the source is written as its code units (an emoji is a surrogate pair).
\<close>

type_synonym jsstring = "nat list"

definition asc :: "string \<Rightarrow> jsstring" where
  "asc cs = map of_char cs"

text \<open>\<open>hay.includes(needle)\<close>: the needle occurs at some position of the hay.\<close>

fun str_includes :: "jsstring \<Rightarrow> jsstring \<Rightarrow> bool" where
  "str_includes [] n = (n = [])"
| "str_includes (c # cs) n = (prefix n (c # cs) \<or> str_includes cs n)"

text \<open>The character classes \<open>\d\<close>, \<open>\w\<close> and \<open>\s\<close> of a regular expression without flags.\<close>

definition isDigit :: "nat \<Rightarrow> bool" where
  "isDigit c = (48 \<le> c \<and> c \<le> 57)"

definition isWordChar :: "nat \<Rightarrow> bool" where
  "isWordChar c = (isDigit c \<or> (65 \<le> c \<and> c \<le> 90) \<or> (97 \<le> c \<and> c \<le> 122) \<or> c = 95)"

definition isSpace :: "nat \<Rightarrow> bool" where
  "isSpace c = ((9 \<le> c \<and> c \<le> 13) \<or> c = 32 \<or> c = 160 \<or> c = 5760 \<or> (8192 \<le> c \<and> c \<le> 8202)
     \<or> c = 8232 \<or> c = 8233 \<or> c = 8239 \<or> c = 8287 \<or> c = 12288 \<or> c = 65279)"

text \<open>\<open>s.trim()\<close> removes white space and line terminators at both ends.\<close>

definition trim :: "jsstring \<Rightarrow> jsstring" where
  "trim s = rev (dropWhile isSpace (rev (dropWhile isSpace s)))"

text \<open>
  \<open>toLowerCase\<close> and \<open>toUpperCase\<close> are builtins of the host. They are modelled on
  the Basic Latin and Latin-1 blocks, together with the five characters outside these
  blocks whose lower case lies inside them (U+0130, whose lower case is two code units,
  U+0178, U+1E9E, the Kelvin sign and the Angstrom sign) and the Latin-1 characters whose
  upper case lies outside (or is two letters). Every other code unit is left as it is:
  the keywords and patterns of the assistant are written in Basic Latin and Latin-1, so
  the case of the other letters decides no rule.
\<close>

definition lowerUnit :: "nat \<Rightarrow> jsstring" where
  "lowerUnit c =
     (if 65 \<le> c \<and> c \<le> 90 then [c + 32]
      else if 192 \<le> c \<and> c \<le> 222 \<and> c \<noteq> 215 then [c + 32]
      else if c = 304 then [105, 775]
      else if c = 376 then [255]
      else if c = 7838 then [223]
      else if c = 8490 then [107]
      else if c = 8491 then [229]
      else [c])"

definition toLowerCase :: "jsstring \<Rightarrow> jsstring" where
  "toLowerCase s = concat (map lowerUnit s)"

definition upperUnit :: "nat \<Rightarrow> jsstring" where
  "upperUnit c =
     (if 97 \<le> c \<and> c \<le> 122 then [c - 32]
      else if 224 \<le> c \<and> c \<le> 254 \<and> c \<noteq> 247 then [c - 32]
      else if c = 223 then [83, 83]
      else if c = 255 then [376]
      else if c = 181 then [924]
      else [c])"

definition toUpperCase :: "jsstring \<Rightarrow> jsstring" where
  "toUpperCase s = concat (map upperUnit s)"

text \<open>\<open>xs.join(sep)\<close>.\<close>

fun join :: "jsstring \<Rightarrow> jsstring list \<Rightarrow> jsstring" where
  "join sep [] = []"
| "join sep [x] = x"
| "join sep (x # y # ys) = x @ sep @ join sep (y # ys)"

text \<open>The decimal rendering of a natural number, as \<open>toString\<close> and a template do it.\<close>

fun decimal :: "nat \<Rightarrow> jsstring" where
  "decimal n = (if n < 10 then [48 + n] else decimal (n div 10) @ [48 + n mod 10])"

declare decimal.simps [simp del]

text \<open>
  \<open>parseInt(ds, 10)\<close> on a string of decimal digits. The source applies it to the first
  group of the date pattern only, which is one or two digits (lemma \<open>dateMatch_groups\<close>).
\<close>

definition parseInt10 :: "jsstring \<Rightarrow> nat" where
  "parseInt10 ds = foldl (\<lambda>a d. 10 * a + (d - 48)) 0 (takeWhile isDigit ds)"

text \<open>\<open>s.padStart(n, c)\<close> with a filler of one character.\<close>

definition padStart :: "nat \<Rightarrow> nat \<Rightarrow> jsstring \<Rightarrow> jsstring" where
  "padStart n c s = replicate (n - length s) c @ s"


section \<open>Regular expressions\<close>

text \<open>
  The assistant uses three regular expressions. They are kept as terms of a datatype and
  run by a backtracking matcher with the priorities of the host: the first alternative
  before the second, a greedy quantifier before skipping. \<open>ms s r st\<close> lists, in the order
  in which backtracking would try them, the states in which \<open>r\<close> can end when started in
  state \<open>st\<close> on the input \<open>s\<close>; a state is a position and the groups captured so far.
\<close>

datatype cclass = Digit | Space

fun inClass :: "cclass \<Rightarrow> nat \<Rightarrow> bool" where
  "inClass Digit c = isDigit c"
| "inClass Space c = isSpace c"

datatype rx =
    Lit jsstring
  | Cls cclass
  | Seq rx rx
  | Alt rx rx
  | Opt rx
  | Star rx
  | Rep rx nat nat
  | WordB
  | Bol
  | Grp nat rx

type_synonym mstate = "nat \<times> (nat \<times> nat \<times> nat) list"

text \<open>\<open>\b\<close>: exactly one of the two neighbours of the position is a word character.\<close>

definition wordAt :: "jsstring \<Rightarrow> nat \<Rightarrow> bool" where
  "wordAt s p = (p < length s \<and> isWordChar (s ! p))"

definition wordBoundary :: "jsstring \<Rightarrow> nat \<Rightarrow> bool" where
  "wordBoundary s p = ((p > 0 \<and> wordAt s (p - 1)) \<noteq> wordAt s p)"

text \<open>
  \<open>r*\<close>, greedy: one more iteration first, then the continuation. An iteration that
  consumes nothing is rejected, as the host does; so at most as many iterations as there
  are code units left can follow one another, which bounds the recursion.
\<close>

fun iter :: "(mstate \<Rightarrow> mstate list) \<Rightarrow> nat \<Rightarrow> mstate \<Rightarrow> mstate list" where
  "iter f 0 st = [st]"
| "iter f (Suc k) st =
     concat (map (\<lambda>st'. if fst st < fst st' then iter f k st' else []) (f st)) @ [st]"

text \<open>\<open>r{lo,hi}\<close>, greedy.\<close>

fun rep :: "(mstate \<Rightarrow> mstate list) \<Rightarrow> nat \<Rightarrow> nat \<Rightarrow> mstate \<Rightarrow> mstate list" where
  "rep f lo 0 st = (if lo = 0 then [st] else [])"
| "rep f lo (Suc h) st =
     concat (map (rep f (lo - 1) h) (f st)) @ (if lo = 0 then [st] else [])"

primrec ms :: "jsstring \<Rightarrow> rx \<Rightarrow> mstate \<Rightarrow> mstate list" where
  "ms s (Lit w) = (\<lambda>st. if prefix w (drop (fst st) s) then [(fst st + length w, snd st)] else [])"
| "ms s (Cls k) =
     (\<lambda>st. if fst st < length s \<and> inClass k (s ! fst st) then [(Suc (fst st), snd st)] else [])"
| "ms s (Seq a b) = (\<lambda>st. concat (map (ms s b) (ms s a st)))"
| "ms s (Alt a b) = (\<lambda>st. ms s a st @ ms s b st)"
| "ms s (Opt a) = (\<lambda>st. ms s a st @ [st])"
| "ms s (Star a) = (\<lambda>st. iter (ms s a) (length s - fst st) st)"
| "ms s (Rep a lo hi) = rep (ms s a) lo hi"
| "ms s WordB = (\<lambda>st. if wordBoundary s (fst st) then [st] else [])"
| "ms s Bol = (\<lambda>st. if fst st = 0 then [st] else [])"
| "ms s (Grp i a) = (\<lambda>st. map (\<lambda>st'. (fst st', (i, fst st, fst st') # snd st')) (ms s a st))"

text \<open>An alternation of several branches, tried from left to right.\<close>

fun alts :: "rx list \<Rightarrow> rx" where
  "alts [] = Lit []"
| "alts [r] = r"
| "alts (r # rs) = Alt r (alts rs)"

text \<open>
  \<open>s.match(r)\<close> for a pattern without the global flag: the start positions are tried
  from the left, and the first way of matching at the first position that has one wins.
  The result gives the captured groups; \<open>group\<close> reads the text of one.
\<close>

definition rx_exec :: "rx \<Rightarrow> jsstring \<Rightarrow> (nat \<times> nat \<times> nat) list option" where
  "rx_exec r s =
     (case concat (map (\<lambda>i. ms s r (i, [])) [0..<Suc (length s)]) of
        [] \<Rightarrow> None
      | st # _ \<Rightarrow> Some (snd st))"

definition rx_test :: "rx \<Rightarrow> jsstring \<Rightarrow> bool" where
  "rx_test r s = (rx_exec r s \<noteq> None)"

definition group :: "jsstring \<Rightarrow> (nat \<times> nat \<times> nat) list \<Rightarrow> nat \<Rightarrow> jsstring" where
  "group s caps i =
     (case map_of caps i of
        None \<Rightarrow> asc ''undefined''
      | Some (p, q) \<Rightarrow> take (q - p) (drop p s))"


section \<open>The academic calendar\<close>

text \<open>
  The month table \<open>months\<close> and the event list \<open>calendarEvents\<close> are local constants of
  \<open>getAIResponse\<close>. A point event is \<open>{day, month, title}\<close>, a range event is
  \<open>{start: {day, month}, end: {day, month}, title}\<close>; the arguments of \<open>Range\<close> are the
  start day, the start month, the end day, the end month and the title.
\<close>

definition months :: "(jsstring \<times> nat) list" where
  "months =
     [(asc ''enero'', 1), (asc ''febrero'', 2), (asc ''marzo'', 3), (asc ''abril'', 4),
      (asc ''mayo'', 5), (asc ''junio'', 6), (asc ''julio'', 7), (asc ''agosto'', 8),
      (asc ''septiembre'', 9), (asc ''setiembre'', 9), (asc ''octubre'', 10),
      (asc ''noviembre'', 11), (asc ''diciembre'', 12)]"

datatype event =
    Point nat nat jsstring
  | Range nat nat nat nat jsstring

definition calendarEvents :: "event list" where
  "calendarEvents =
     [Point 13 2 (asc ''Reuniones profesionales de facultad y equipo (tarde)''),
      Point 16 2 (asc ''D'' @ [237] @ asc ''a festivo''),
      Point 19 2 (asc ''Assessment''),
      Point 2 3 (asc ''D'' @ [237] @ asc ''a festivo''),
      Point 16 3 (asc ''Assessment''),
      Point 20 3 (asc ''Reuniones profesionales (tarde)''),
      Point 23 3 (asc ''D'' @ [237] @ asc ''a festivo''),
      Point 27 3 (asc ''Entrega del informe de progreso acad'' @ [233] @ asc ''mico''),
      Point 2 4 (asc ''Receso acad'' @ [233] @ asc ''mico (personal docente y no docente)''),
      Point 3 4 (asc ''Feriado''),
      Range 13 4 7 5 (asc ''Assessment (per'' @ [237] @ asc ''odo completo)''),
      Range 18 5 22 5 (asc ''Semana de la Educaci'' @ [243] @ asc ''n''),
      Point 22 5 (asc ''Receso acad'' @ [233] @ asc ''mico''),
      Point 25 5 (asc ''Feriado''),
      Point 26 5 (asc ''Evaluaciones finales''),
      Point 27 5 (asc ''Evaluaciones finales''),
      Point 29 5 (asc ''Entrega del informe de progreso acad'' @ [233] @ asc ''mico'')]"

text \<open>
  \<open>Object.keys(months).find(m => months[m] === n)\<close>: the first name of the table with
  the number \<open>n\<close>; a template renders the missing result as \<open>undefined\<close>.
\<close>

definition monthKey :: "nat \<Rightarrow> jsstring" where
  "monthKey n =
     (case find (\<lambda>kv. snd kv = n) months of
        None \<Rightarrow> asc ''undefined''
      | Some kv \<Rightarrow> fst kv)"

text \<open>The span that both rules append to the title of a range event.\<close>

definition spanText :: "nat \<Rightarrow> nat \<Rightarrow> nat \<Rightarrow> nat \<Rightarrow> jsstring" where
  "spanText sd sm ed em =
     asc '' (del '' @ decimal sd @ asc '' de '' @ monthKey sm @ asc '' al '' @ decimal ed
       @ asc '' de '' @ monthKey em @ asc '')''"

subsection \<open>Rule 1: a day of a month\<close>

text \<open>
  The alternation of month names, in the order of the source, and the pattern
  \<open>/(?:\b|^)(?:el\s*)?(\d{1,2})\s*(?:de\s*)?(enero|...|diciembre)\b/\<close>.
\<close>

definition monthAlt :: rx where
  "monthAlt =
     alts [Lit (asc ''enero''), Lit (asc ''febrero''), Lit (asc ''marzo''), Lit (asc ''abril''),
           Lit (asc ''mayo''), Lit (asc ''junio''), Lit (asc ''julio''), Lit (asc ''agosto''),
           Lit (asc ''septiembre''), Lit (asc ''setiembre''), Lit (asc ''octubre''),
           Lit (asc ''noviembre''), Lit (asc ''diciembre'')]"

definition dateRx :: rx where
  "dateRx =
     Seq (Alt WordB Bol)
    (Seq (Opt (Seq (Lit (asc ''el'')) (Star (Cls Space))))
    (Seq (Grp 1 (Rep (Cls Digit) 1 2))
    (Seq (Star (Cls Space))
    (Seq (Opt (Seq (Lit (asc ''de'')) (Star (Cls Space))))
    (Seq (Grp 2 monthAlt)
         WordB)))))"

text \<open>
  The loop over the events of rule 1. The test \<open>ev.day && ev.month\<close> is false for a
  point event with day or month 0, which then has no \<open>start\<close> either and is skipped.
\<close>

fun dateMatches :: "nat \<Rightarrow> nat \<Rightarrow> event list \<Rightarrow> jsstring list" where
  "dateMatches day month [] = []"
| "dateMatches day month (Point d m t # evs) =
     (if d \<noteq> 0 \<and> m \<noteq> 0 \<and> d = day \<and> m = month then [t] else [])
       @ dateMatches day month evs"
| "dateMatches day month (Range sd sm ed em t # evs) =
     (let afterStart = (month > sm \<or> (month = sm \<and> day \<ge> sd));
          beforeEnd = (month < em \<or> (month = em \<and> day \<le> ed))
      in if afterStart \<and> beforeEnd then [t @ spanText sd sm ed em] else [])
       @ dateMatches day month evs"

definition noEventsOnDate :: "nat \<Rightarrow> jsstring \<Rightarrow> jsstring" where
  "noEventsOnDate day monthName =
     [55357, 56517] @ asc '' No hay eventos listados para el '' @ decimal day @ asc '' de ''
       @ monthName @ asc '' en el calendario escolar. '' @ [191]
       @ asc ''Deseas ver el calendario completo?''"

text \<open>
  The body of rule 1, from the two groups of the match. A month name that the table
  does not have would give \<open>undefined\<close>, which equals and exceeds no number: no event matches.
\<close>

definition dateAnswer :: "jsstring \<Rightarrow> jsstring \<Rightarrow> jsstring" where
  "dateAnswer dayText monthName =
     (let day = parseInt10 dayText;
          matches = (case map_of months monthName of
                       None \<Rightarrow> []
                     | Some month \<Rightarrow> dateMatches day month calendarEvents)
      in if length matches > 0
         then [55357, 56517] @ asc '' El '' @ decimal day @ asc '' de '' @ monthName @ asc '': ''
                @ join (asc ''; '') matches @ asc ''.''
         else noEventsOnDate day monthName)"

subsection \<open>Rule 2: a month\<close>

text \<open>
  The patterns \<open>/\b(enero|...|diciembre)\b/\<close> and
  \<open>/\b(qu\'e|que hay|qu\'e hay|evento|eventos|actividad|actividades|en)\b/\<close>
  (\<open>\'e\<close> stands for the code unit 233).
\<close>

definition monthOnlyRx :: rx where
  "monthOnlyRx = Seq WordB (Seq (Grp 1 monthAlt) WordB)"

definition explicitKeywords :: rx where
  "explicitKeywords =
     Seq WordB
    (Seq (Grp 1 (alts [Lit (asc ''qu'' @ [233]), Lit (asc ''que hay''),
                       Lit (asc ''qu'' @ [233] @ asc '' hay''), Lit (asc ''evento''),
                       Lit (asc ''eventos''), Lit (asc ''actividad''),
                       Lit (asc ''actividades''), Lit (asc ''en'')]))
         WordB)"

text \<open>The condition under which rule 2 answers; \<open>query\<close> is the text as it was typed.\<close>

definition monthQueryApplies :: "jsstring \<Rightarrow> jsstring \<Rightarrow> jsstring \<Rightarrow> bool" where
  "monthQueryApplies query lowerQ monthName =
     (let shortQuery = (length (trim query) \<le> 12)
      in shortQuery \<or> rx_test explicitKeywords lowerQ
           \<or> str_includes lowerQ (asc ''en '' @ monthName))"

fun monthResults :: "nat \<Rightarrow> jsstring \<Rightarrow> event list \<Rightarrow> jsstring list" where
  "monthResults monthNum monthName [] = []"
| "monthResults monthNum monthName (Point d m t # evs) =
     (if d \<noteq> 0 \<and> m \<noteq> 0 \<and> m = monthNum
      then [[8226] @ asc '' '' @ decimal d @ asc '' de '' @ monthName @ asc '': '' @ t]
      else [])
       @ monthResults monthNum monthName evs"
| "monthResults monthNum monthName (Range sd sm ed em t # evs) =
     (let covers = ((monthNum > sm \<and> monthNum < em) \<or> monthNum = sm \<or> monthNum = em)
      in if covers then [[8226] @ asc '' '' @ t @ spanText sd sm ed em] else [])
       @ monthResults monthNum monthName evs"

definition monthAnswer :: "jsstring \<Rightarrow> jsstring" where
  "monthAnswer monthName =
     (let results = (case map_of months monthName of
                       None \<Rightarrow> []
                     | Some monthNum \<Rightarrow> monthResults monthNum monthName calendarEvents)
      in if length results > 0
         then [55357, 56517] @ asc '' <strong>Eventos de '' @ toUpperCase (take 1 monthName)
                @ drop 1 monthName @ asc ''</strong>:<br><br>'' @ join (asc ''<br>'') results
         else [55357, 56517] @ asc '' No se encontraron eventos listados para '' @ monthName
                @ asc ''. '' @ [191] @ asc ''Quieres ver el calendario completo?'')"


section \<open>The store\<close>

subsection \<open>Values and records\<close>

text \<open>
  The payload of a request is an object whose fields the source copies without looking
  at them. An object is the list of its fields in insertion order; reading a missing
  field gives \<open>undefined\<close>, writing a field replaces it in place or appends it. The
  identifiers that the source compares are strings; two objects or arrays are equal under
  \<open>===\<close> only if they are the same reference, which a value handed in by a caller and a
  value kept in the store never are.
\<close>

datatype jsval =
    JUndefined
  | JNull
  | JBool bool
  | JNum int
  | JStr jsstring
  | JArr "jsval list"
  | JObj "(jsstring \<times> jsval) list"

type_synonym jsobj = "(jsstring \<times> jsval) list"

definition getProp :: "jsobj \<Rightarrow> jsstring \<Rightarrow> jsval" where
  "getProp obj k = (case map_of obj k of None \<Rightarrow> JUndefined | Some v \<Rightarrow> v)"

definition setProp :: "jsstring \<Rightarrow> jsval \<Rightarrow> jsobj \<Rightarrow> jsobj" where
  "setProp k v obj = AList.update k v obj"

text \<open>An object literal, spread included: the fields are written from left to right.\<close>

definition objLit :: "(jsstring \<times> jsval) list \<Rightarrow> jsobj" where
  "objLit fields = foldl (\<lambda>obj kv. setProp (fst kv) (snd kv) obj) [] fields"

fun truthy :: "jsval \<Rightarrow> bool" where
  "truthy JUndefined = False"
| "truthy JNull = False"
| "truthy (JBool b) = b"
| "truthy (JNum n) = (n \<noteq> 0)"
| "truthy (JStr s) = (s \<noteq> [])"
| "truthy (JArr xs) = True"
| "truthy (JObj fs) = True"

fun strictEq :: "jsval \<Rightarrow> jsval \<Rightarrow> bool" where
  "strictEq (JArr xs) v = False"
| "strictEq (JObj fs) v = False"
| "strictEq u v = (u = v)"

text \<open>
  A document request is built field by field by \<open>createDocumentRequest\<close>; \<open>req_id\<close> and
  \<open>req_type\<close> are its fields \<open>id\<close> and \<open>type\<close>, and the fields of a comment are
  \<open>text\<close>, \<open>date\<close> and \<open>author\<close>.
\<close>

record comment =
  c_text :: jsstring
  c_date :: jsstring
  c_author :: jsstring

record docrequest =
  req_id :: jsstring
  req_type :: jsval
  studentName :: jsval
  studentId :: jsval
  grade :: jsval
  email :: jsval
  phone :: jsval
  details :: jsval
  status :: jsstring
  requestDate :: jsstring
  lastUpdate :: jsstring
  comments :: "comment list"

text \<open>
  The store document. A collection is \<open>None\<close> when the document has no such key (a
  document written by an older version of the page), which is what the guards
  \<open>if (!this.data.x)\<close> of the source test.
\<close>

record document =
  solicitudes_documentos :: "docrequest list option"
  matriculas :: "jsobj list option"
  enfermeria_visitas :: "jsobj list option"
  tickets_soporte :: "jsobj list option"
  citas_orientacion :: "jsobj list option"
  inventario_biblioteca :: "jsval list option"
  usuarios :: "jsval list option"
  config :: "jsobj option"
  news :: "jsobj list option"
  firstGreeting :: "bool option"
  alertas_tempranas :: "jsobj list option"
  reservas_biblioteca :: "jsobj list option"
  mensajes_padres :: "jsobj list option"
  seguridad_visitas :: "jsobj list option"
  seguridad_incidentes :: "jsobj list option"
  techScores :: "jsobj option"

subsection \<open>The environment\<close>

text \<open>
  An instant, in its UTC fields, and \<open>toISOString\<close>: \<open>YYYY-MM-DDTHH:mm:ss.sssZ\<close>, with
  a sign and six digits for a year after 9999.
\<close>

record datetime =
  utcFullYear :: nat
  utcMonth :: nat
  utcDate :: nat
  utcHours :: nat
  utcMinutes :: nat
  utcSeconds :: nat
  utcMilliseconds :: nat

definition pad :: "nat \<Rightarrow> nat \<Rightarrow> jsstring" where
  "pad k n = padStart k 48 (decimal n)"

definition toISOString :: "datetime \<Rightarrow> jsstring" where
  "toISOString d =
     (if utcFullYear d \<le> 9999 then pad 4 (utcFullYear d) else asc ''+'' @ pad 6 (utcFullYear d))
       @ asc ''-'' @ pad 2 (utcMonth d) @ asc ''-'' @ pad 2 (utcDate d)
       @ asc ''T'' @ pad 2 (utcHours d) @ asc '':'' @ pad 2 (utcMinutes d)
       @ asc '':'' @ pad 2 (utcSeconds d) @ asc ''.'' @ pad 3 (utcMilliseconds d) @ asc ''Z''"

text \<open>
  The state of a session: the document in memory (\<open>this.data\<close>), the document in local
  storage (\<open>None\<close> when the key holds nothing), the lines written to the console, and the
  two sources the code reads from its host: the clock, as the stream of the instants that
  the successive \<open>new Date()\<close> will return, and the random source. Serialisation is taken
  to be faithful: the storage holds the document that was saved.

  \<open>Math.floor(Math.random() * n)\<close> is a number below \<open>n\<close>; it is modelled by reducing
  the next number of the random stream modulo \<open>n\<close>.
\<close>

datatype logged = LoggedRequest docrequest | LoggedObject jsobj

record world =
  data :: document
  storage :: "document option"
  console :: "(jsstring \<times> logged) list"
  clock :: "datetime stream"
  rng :: "nat stream"

datatype error = TypeError

definition nowISO :: "world \<Rightarrow> jsstring \<times> world" where
  "nowISO w = (toISOString (shd (clock w)), w\<lparr>clock := stl (clock w)\<rparr>)"

definition randomBelow :: "nat \<Rightarrow> world \<Rightarrow> nat \<times> world" where
  "randomBelow n w = (shd (rng w) mod n, w\<lparr>rng := stl (rng w)\<rparr>)"

subsection \<open>Loading and saving\<close>

definition freshDocument :: document where
  "freshDocument =
     \<lparr>solicitudes_documentos = Some [], matriculas = Some [], enfermeria_visitas = Some [],
      tickets_soporte = Some [], citas_orientacion = Some [], inventario_biblioteca = Some [],
      usuarios = Some [],
      config = Some [(asc ''schoolName'', JStr (asc ''Escuela Superior Vocacional'')),
                     (asc ''academicYear'', JStr (asc ''2025-2026''))],
      news = Some [], firstGreeting = Some True,
      alertas_tempranas = None, reservas_biblioteca = None, mensajes_padres = None,
      seguridad_visitas = None, seguridad_incidentes = None, techScores = None\<rparr>"

definition loadData :: "world \<Rightarrow> document" where
  "loadData w = (case storage w of Some saved \<Rightarrow> saved | None \<Rightarrow> freshDocument)"

definition saveData :: "world \<Rightarrow> world" where
  "saveData w = w\<lparr>storage := Some (data w)\<rparr>"

text \<open>The constructor: \<open>this.data = this.loadData()\<close>.\<close>

definition newServiceManager :: "world \<Rightarrow> world" where
  "newServiceManager w = w\<lparr>data := loadData w\<rparr>"

text \<open>
  \<open>simulateNotification\<close> writes one line to the console. The message it builds
  afterwards is a local variable that nothing reads (for the tag \<open>updated\<close> it takes
  the upper case of the status, which is a string on the one path of the source that uses
  this tag, the update of a document request).
\<close>

definition simulateNotification :: "logged \<Rightarrow> jsstring \<Rightarrow> world \<Rightarrow> world" where
  "simulateNotification request event w = w\<lparr>console := console w @ [(event, request)]\<rparr>"

subsection \<open>Identifiers\<close>

definition generateId :: "jsstring \<Rightarrow> world \<Rightarrow> jsstring \<times> world" where
  "generateId pfx w =
     (let (iso, w1) = nowISO w;
          datePart = filter (\<lambda>c. c \<noteq> 45) (take 8 (drop 2 iso));
          (r, w2) = randomBelow 1000 w1;
          randomPart = padStart 3 48 (decimal r)
      in (pfx @ asc ''-'' @ datePart @ asc ''-'' @ randomPart, w2))"


subsection \<open>The operations on the collections\<close>

text \<open>
  An operation takes the state of the session and returns its result and the new state.
  Where the source would raise (it calls \<open>push\<close> or \<open>find\<close> on a collection that the
  document does not have), the result is \<open>Inl TypeError\<close> and the state is the one
  reached when the exception leaves the method.

  \<open>replaceFirst\<close> puts the changed record back in the place of the record that
  \<open>find\<close> returned: the source changes that object in place.
\<close>

fun replaceFirst :: "('a \<Rightarrow> bool) \<Rightarrow> 'a \<Rightarrow> 'a list \<Rightarrow> 'a list" where
  "replaceFirst P y [] = []"
| "replaceFirst P y (x # xs) = (if P x then y # xs else x # replaceFirst P y xs)"

definition createDocumentRequest :: "jsobj \<Rightarrow> world \<Rightarrow> (error + docrequest) \<times> world" where
  "createDocumentRequest requestData w =
     (let (newId, w1) = generateId (asc ''DOC'') w;
          (t1, w2) = nowISO w1;
          (t2, w3) = nowISO w2;
          newRequest =
            \<lparr>req_id = newId,
             req_type = getProp requestData (asc ''type''),
             studentName = getProp requestData (asc ''studentName''),
             studentId = getProp requestData (asc ''studentId''),
             grade = getProp requestData (asc ''grade''),
             email = getProp requestData (asc ''email''),
             phone = getProp requestData (asc ''phone''),
             details = getProp requestData (asc ''details''),
             status = asc ''pendiente'',
             requestDate = t1,
             lastUpdate = t2,
             comments = []\<rparr>
      in case solicitudes_documentos (data w3) of
           None \<Rightarrow> (Inl TypeError, w3)
         | Some reqs \<Rightarrow>
             let w4 = w3\<lparr>data := (data w3)\<lparr>solicitudes_documentos := Some (reqs @ [newRequest])\<rparr>\<rparr>;
                 w5 = saveData w4;
                 w6 = simulateNotification (LoggedRequest newRequest) (asc ''created'') w5
             in (Inr newRequest, w6))"

definition getRequestById :: "jsstring \<Rightarrow> world \<Rightarrow> error + docrequest option" where
  "getRequestById rid w =
     (case solicitudes_documentos (data w) of
        None \<Rightarrow> Inl TypeError
      | Some reqs \<Rightarrow> Inr (find (\<lambda>req. req_id req = rid) reqs))"

text \<open>\<open>getRequests(status = null)\<close>: \<open>None\<close> is the call without a status.\<close>

definition getRequests :: "jsstring option \<Rightarrow> world \<Rightarrow> error + docrequest list" where
  "getRequests st w =
     (case solicitudes_documentos (data w) of
        None \<Rightarrow> Inl TypeError
      | Some reqs \<Rightarrow>
          (case st of
             None \<Rightarrow> Inr reqs
           | Some s \<Rightarrow> if s \<noteq> [] then Inr (filter (\<lambda>req. status req = s) reqs) else Inr reqs))"

definition updateRequestStatus ::
    "jsstring \<Rightarrow> jsstring \<Rightarrow> jsstring \<Rightarrow> world \<Rightarrow> (error + bool) \<times> world" where
  "updateRequestStatus rid newStatus adminComment w =
     (case solicitudes_documentos (data w) of
        None \<Rightarrow> (Inl TypeError, w)
      | Some reqs \<Rightarrow>
          (case find (\<lambda>req. req_id req = rid) reqs of
             None \<Rightarrow> (Inr False, w)
           | Some request \<Rightarrow>
               let (t1, w1) = nowISO w;
                   request1 = request\<lparr>status := newStatus, lastUpdate := t1\<rparr>;
                   (request2, w2) =
                     (if adminComment \<noteq> []
                      then let (t2, w') = nowISO w1
                           in (request1\<lparr>comments := comments request1 @
                                 [\<lparr>c_text = adminComment, c_date = t2,
                                   c_author = asc ''Administrador''\<rparr>]\<rparr>, w')
                      else (request1, w1));
                   w3 = w2\<lparr>data := (data w2)\<lparr>solicitudes_documentos :=
                          Some (replaceFirst (\<lambda>req. req_id req = rid) request2 reqs)\<rparr>\<rparr>;
                   w4 = saveData w3;
                   w5 = simulateNotification (LoggedRequest request2) (asc ''updated'') w4
               in (Inr True, w5)))"

text \<open>
  The operations that create a record spread their payload into it:
  \<open>{id: id, ...enrollmentData, status: 'pendiente', requestDate: now}\<close>. The fields
  written after the payload replace fields of the payload with the same name, and a field
  \<open>id\<close> of the payload replaces the generated identifier.
\<close>

definition createEnrollment :: "jsobj \<Rightarrow> world \<Rightarrow> (error + jsobj) \<times> world" where
  "createEnrollment enrollmentData w =
     (let (newId, w1) = generateId (asc ''MAT'') w;
          (now, w2) = nowISO w1;
          newEnrollment = objLit
            ([(asc ''id'', JStr newId)] @ enrollmentData @
             [(asc ''status'', JStr (asc ''pendiente'')),
              (asc ''requestDate'', JStr now)])
      in case matriculas (data w2) of
           None \<Rightarrow> (Inl TypeError, w2)
         | Some xs \<Rightarrow>
             let w3 = w2\<lparr>data := (data w2)\<lparr>matriculas := Some (xs @ [newEnrollment])\<rparr>\<rparr>;
                 w4 = saveData w3;
                 w5 = simulateNotification (LoggedObject newEnrollment)
                        (asc ''enrollment_created'') w4
             in (Inr newEnrollment, w5))"

text \<open>\<open>{id: id, ...visitData, date: now, status: 'atendido'}\<close>; no notification.\<close>

definition registerNurseVisit :: "jsobj \<Rightarrow> world \<Rightarrow> (error + jsobj) \<times> world" where
  "registerNurseVisit visitData w =
     (let (newId, w1) = generateId (asc ''NUR'') w;
          (now, w2) = nowISO w1;
          newVisit = objLit
            ([(asc ''id'', JStr newId)] @ visitData @
             [(asc ''date'', JStr now),
              (asc ''status'', JStr (asc ''atendido''))])
      in case enfermeria_visitas (data w2) of
           None \<Rightarrow> (Inl TypeError, w2)
         | Some xs \<Rightarrow>
             let w3 = w2\<lparr>data := (data w2)\<lparr>enfermeria_visitas := Some (xs @ [newVisit])\<rparr>\<rparr>;
                 w4 = saveData w3
             in (Inr newVisit, w4))"

text \<open>\<open>{id: id, ...appointmentData, status: 'pendiente', dateCreated: now}\<close>.\<close>

definition createCounselingAppointment :: "jsobj \<Rightarrow> world \<Rightarrow> (error + jsobj) \<times> world" where
  "createCounselingAppointment appointmentData w =
     (let (newId, w1) = generateId (asc ''CIT'') w;
          (now, w2) = nowISO w1;
          newAppointment = objLit
            ([(asc ''id'', JStr newId)] @ appointmentData @
             [(asc ''status'', JStr (asc ''pendiente'')),
              (asc ''dateCreated'', JStr now)])
      in case citas_orientacion (data w2) of
           None \<Rightarrow> (Inl TypeError, w2)
         | Some xs \<Rightarrow>
             let w3 = w2\<lparr>data := (data w2)\<lparr>citas_orientacion := Some (xs @ [newAppointment])\<rparr>\<rparr>;
                 w4 = saveData w3;
                 w5 = simulateNotification (LoggedObject newAppointment)
                        (asc ''appointment_created'') w4
             in (Inr newAppointment, w5))"

text \<open>\<open>createEarlyAlert\<close> creates its collection when the document has none.\<close>

definition createEarlyAlert :: "jsobj \<Rightarrow> world \<Rightarrow> jsobj \<times> world" where
  "createEarlyAlert alertData w =
     (let (newId, w1) = generateId (asc ''ALT'') w;
          (now, w2) = nowISO w1;
          newAlert = objLit
            ([(asc ''id'', JStr newId)] @ alertData @
             [(asc ''status'', JStr (asc ''activa'')),
              (asc ''priority'', JStr (asc ''alta'')),
              (asc ''dateCreated'', JStr now)]);
          xs = (case alertas_tempranas (data w2) of None \<Rightarrow> [] | Some ys \<Rightarrow> ys);
          w3 = w2\<lparr>data := (data w2)\<lparr>alertas_tempranas := Some (xs @ [newAlert])\<rparr>\<rparr>;
          w4 = saveData w3
      in (newAlert, w4))"

text \<open>\<open>{id: id, ...ticketData, status: 'abierto', assignedTo: null, dateCreated: now, logs: []}\<close>.\<close>

definition createTicket :: "jsobj \<Rightarrow> world \<Rightarrow> (error + jsobj) \<times> world" where
  "createTicket ticketData w =
     (let (newId, w1) = generateId (asc ''TICK'') w;
          (now, w2) = nowISO w1;
          newTicket = objLit
            ([(asc ''id'', JStr newId)] @ ticketData @
             [(asc ''status'', JStr (asc ''abierto'')),
              (asc ''assignedTo'', JNull),
              (asc ''dateCreated'', JStr now),
              (asc ''logs'', JArr [])])
      in case tickets_soporte (data w2) of
           None \<Rightarrow> (Inl TypeError, w2)
         | Some xs \<Rightarrow>
             let w3 = w2\<lparr>data := (data w2)\<lparr>tickets_soporte := Some (xs @ [newTicket])\<rparr>\<rparr>;
                 w4 = saveData w3;
                 w5 = simulateNotification (LoggedObject newTicket)
                        (asc ''ticket_created'') w4
             in (Inr newTicket, w5))"

text \<open>\<open>reserveBook\<close>, with a collection created on first use.\<close>

definition reserveBook :: "jsobj \<Rightarrow> world \<Rightarrow> jsobj \<times> world" where
  "reserveBook reservationData w =
     (let (newId, w1) = generateId (asc ''RES'') w;
          (now, w2) = nowISO w1;
          newReservation = objLit
            ([(asc ''id'', JStr newId)] @ reservationData @
             [(asc ''status'', JStr (asc ''pendiente'')),
              (asc ''dateReserved'', JStr now)]);
          xs = (case reservas_biblioteca (data w2) of None \<Rightarrow> [] | Some ys \<Rightarrow> ys);
          w3 = w2\<lparr>data := (data w2)\<lparr>reservas_biblioteca := Some (xs @ [newReservation])\<rparr>\<rparr>;
          w4 = saveData w3
      in (newReservation, w4))"

text \<open>\<open>sendParentMessage\<close>, with a collection created on first use.\<close>

definition sendParentMessage :: "jsobj \<Rightarrow> world \<Rightarrow> jsobj \<times> world" where
  "sendParentMessage messageData w =
     (let (newId, w1) = generateId (asc ''MSG'') w;
          (now, w2) = nowISO w1;
          newMessage = objLit
            ([(asc ''id'', JStr newId)] @ messageData @
             [(asc ''status'', JStr (asc ''enviado'')),
              (asc ''dateSent'', JStr now)]);
          xs = (case mensajes_padres (data w2) of None \<Rightarrow> [] | Some ys \<Rightarrow> ys);
          w3 = w2\<lparr>data := (data w2)\<lparr>mensajes_padres := Some (xs @ [newMessage])\<rparr>\<rparr>;
          w4 = saveData w3;
          w5 = simulateNotification (LoggedObject newMessage) (asc ''message_sent'') w4
      in (newMessage, w5))"

text \<open>\<open>registerVisitor\<close>, with a collection created on first use.\<close>

definition registerVisitor :: "jsobj \<Rightarrow> world \<Rightarrow> jsobj \<times> world" where
  "registerVisitor visitorData w =
     (let (newId, w1) = generateId (asc ''VISIT'') w;
          (now, w2) = nowISO w1;
          newVisit = objLit
            ([(asc ''id'', JStr newId)] @ visitorData @
             [(asc ''checkIn'', JStr now),
              (asc ''checkOut'', JNull),
              (asc ''status'', JStr (asc ''active''))]);
          xs = (case seguridad_visitas (data w2) of None \<Rightarrow> [] | Some ys \<Rightarrow> ys);
          w3 = w2\<lparr>data := (data w2)\<lparr>seguridad_visitas := Some (xs @ [newVisit])\<rparr>\<rparr>;
          w4 = saveData w3
      in (newVisit, w4))"

text \<open>\<open>reportIncident\<close>, with a collection created on first use.\<close>

definition reportIncident :: "jsobj \<Rightarrow> world \<Rightarrow> jsobj \<times> world" where
  "reportIncident incidentData w =
     (let (newId, w1) = generateId (asc ''INC'') w;
          (now, w2) = nowISO w1;
          newIncident = objLit
            ([(asc ''id'', JStr newId)] @ incidentData @
             [(asc ''dateReported'', JStr now),
              (asc ''status'', JStr (asc ''investigating''))]);
          xs = (case seguridad_incidentes (data w2) of None \<Rightarrow> [] | Some ys \<Rightarrow> ys);
          w3 = w2\<lparr>data := (data w2)\<lparr>seguridad_incidentes := Some (xs @ [newIncident])\<rparr>\<rparr>;
          w4 = saveData w3;
          w5 = simulateNotification (LoggedObject newIncident) (asc ''incident_reported'') w4
      in (newIncident, w5))"

text \<open>\<open>addNews\<close>, with a collection created on first use.\<close>

definition addNews :: "jsobj \<Rightarrow> world \<Rightarrow> jsobj \<times> world" where
  "addNews newsData w =
     (let (newId, w1) = generateId (asc ''NEWS'') w;
          (now, w2) = nowISO w1;
          newNews = objLit
            ([(asc ''id'', JStr newId)] @ newsData @
             [(asc ''date'', JStr now),
              (asc ''active'', JBool True)]);
          xs = (case news (data w2) of None \<Rightarrow> [] | Some ys \<Rightarrow> ys);
          w3 = w2\<lparr>data := (data w2)\<lparr>news := Some (xs @ [newNews])\<rparr>\<rparr>;
          w4 = saveData w3
      in (newNews, w4))"


text \<open>
  \<open>logWBLHours\<close>. \<open>ticket.logs.push(...)\<close> raises before the entry is built when the
  ticket has no \<open>logs\<close>, and after it was built (the clock has been read) when \<open>logs\<close> is
  not an array.
\<close>

definition logWBLHours :: "jsobj \<Rightarrow> world \<Rightarrow> (error + bool) \<times> world" where
  "logWBLHours logData w =
     (case tickets_soporte (data w) of
        None \<Rightarrow> (Inl TypeError, w)
      | Some ts \<Rightarrow>
          (case find (\<lambda>t. strictEq (getProp t (asc ''id'')) (getProp logData (asc ''ticketId''))) ts of
             None \<Rightarrow> (Inr False, w)
           | Some ticket \<Rightarrow>
               (case getProp ticket (asc ''logs'') of
                  JUndefined \<Rightarrow> (Inl TypeError, w)
                | JNull \<Rightarrow> (Inl TypeError, w)
                | JArr ls \<Rightarrow>
                    let (t1, w1) = nowISO w;
                        entry = JObj (objLit
                          [(asc ''studentName'', getProp logData (asc ''studentName'')),
                           (asc ''hours'', getProp logData (asc ''hours'')),
                           (asc ''description'', getProp logData (asc ''description'')),
                           (asc ''date'', JStr t1),
                           (asc ''evidenceUrl'',
                              if truthy (getProp logData (asc ''evidenceUrl''))
                              then getProp logData (asc ''evidenceUrl'') else JNull)]);
                        ticket1 = setProp (asc ''logs'') (JArr (ls @ [entry])) ticket;
                        (ticket2, w2) =
                          (if truthy (getProp logData (asc ''markCompleted''))
                           then let (t2, w') = nowISO w1
                                in (setProp (asc ''dateClosed'') (JStr t2)
                                      (setProp (asc ''status'') (JStr (asc ''resuelto'')) ticket1), w')
                           else (ticket1, w1));
                        w3 = w2\<lparr>data := (data w2)\<lparr>tickets_soporte := Some (replaceFirst
                               (\<lambda>t. strictEq (getProp t (asc ''id'')) (getProp logData (asc ''ticketId'')))
                               ticket2 ts)\<rparr>\<rparr>
                    in (Inr True, saveData w3)
                | _ \<Rightarrow> (Inl TypeError, snd (nowISO w)))))"

definition checkoutVisitor :: "jsval \<Rightarrow> world \<Rightarrow> bool \<times> world" where
  "checkoutVisitor visitorId w =
     (case seguridad_visitas (data w) of
        None \<Rightarrow> (False, w)
      | Some vs \<Rightarrow>
          (case find (\<lambda>v. strictEq (getProp v (asc ''id'')) visitorId) vs of
             None \<Rightarrow> (False, w)
           | Some visit \<Rightarrow>
               if strictEq (getProp visit (asc ''status'')) (JStr (asc ''active''))
               then let (now, w1) = nowISO w;
                        visit1 = setProp (asc ''status'') (JStr (asc ''completed''))
                                   (setProp (asc ''checkOut'') (JStr now) visit);
                        w2 = w1\<lparr>data := (data w1)\<lparr>seguridad_visitas := Some (replaceFirst
                               (\<lambda>v. strictEq (getProp v (asc ''id'')) visitorId) visit1 vs)\<rparr>\<rparr>
                    in (True, saveData w2)
               else (False, w)))"

definition deleteNews :: "jsval \<Rightarrow> world \<Rightarrow> bool \<times> world" where
  "deleteNews nid w =
     (case news (data w) of
        None \<Rightarrow> (False, w)
      | Some ns \<Rightarrow>
          let w1 = w\<lparr>data := (data w)\<lparr>news :=
                     Some (filter (\<lambda>n. \<not> strictEq (getProp n (asc ''id'')) nid) ns)\<rparr>\<rparr>
          in (True, saveData w1))"


definition addTicket :: "jsobj \<Rightarrow> world \<Rightarrow> jsobj \<times> world" where
  "addTicket ticket w =
     (let ts = (case tickets_soporte (data w) of None \<Rightarrow> [] | Some ys \<Rightarrow> ys);
          w1 = w\<lparr>data := (data w)\<lparr>tickets_soporte := Some (ts @ [ticket])\<rparr>\<rparr>
      in (ticket, saveData w1))"

text \<open>\<open>getAllTickets\<close> creates a missing collection in memory and does not save.\<close>

definition getAllTickets :: "world \<Rightarrow> jsobj list \<times> world" where
  "getAllTickets w =
     (let ts = (case tickets_soporte (data w) of None \<Rightarrow> [] | Some ys \<Rightarrow> ys)
      in (ts, w\<lparr>data := (data w)\<lparr>tickets_soporte := Some ts\<rparr>\<rparr>))"

definition updateTicket :: "jsobj \<Rightarrow> world \<Rightarrow> (error + jsobj) \<times> world" where
  "updateTicket updatedTicket w =
     (case tickets_soporte (data w) of
        None \<Rightarrow> (Inl TypeError, w)
      | Some ts \<Rightarrow>
          (case find (\<lambda>t. strictEq (getProp t (asc ''id'')) (getProp updatedTicket (asc ''id''))) ts of
             None \<Rightarrow> (Inr updatedTicket, w)
           | Some _ \<Rightarrow>
               let w1 = w\<lparr>data := (data w)\<lparr>tickets_soporte := Some (replaceFirst
                          (\<lambda>t. strictEq (getProp t (asc ''id'')) (getProp updatedTicket (asc ''id'')))
                          updatedTicket ts)\<rparr>\<rparr>
               in (Inr updatedTicket, saveData w1)))"

text \<open>\<open>resolveTicket\<close> returns the ticket it changed, or \<open>undefined\<close> (\<open>None\<close>).\<close>

definition resolveTicket :: "jsval \<Rightarrow> jsval \<Rightarrow> world \<Rightarrow> (error + jsobj option) \<times> world" where
  "resolveTicket ticketId techName w =
     (case tickets_soporte (data w) of
        None \<Rightarrow> (Inl TypeError, w)
      | Some ts \<Rightarrow>
          (case find (\<lambda>t. strictEq (getProp t (asc ''id'')) ticketId) ts of
             None \<Rightarrow> (Inr None, w)
           | Some ticket \<Rightarrow>
               let ticket1 = setProp (asc ''status'') (JStr (asc ''resuelto'')) ticket;
                   ticket2 = setProp (asc ''resolvedBy'') techName ticket1;
                   (now, w1) = nowISO w;
                   ticket3 = setProp (asc ''resolvedDate'') (JStr now) ticket2;
                   w2 = w1\<lparr>data := (data w1)\<lparr>tickets_soporte := Some (replaceFirst
                          (\<lambda>t. strictEq (getProp t (asc ''id'')) ticketId) ticket3 ts)\<rparr>\<rparr>
               in (Inr (Some ticket3), saveData w2)))"

definition saveTechScore :: "jsstring \<Rightarrow> jsval \<Rightarrow> world \<Rightarrow> world" where
  "saveTechScore techName score w =
     (let scores = (case techScores (data w) of None \<Rightarrow> [] | Some sc \<Rightarrow> sc);
          w1 = w\<lparr>data := (data w)\<lparr>techScores := Some (setProp techName score scores)\<rparr>\<rparr>
      in saveData w1)"

text \<open>\<open>getTechScore\<close> creates a missing table in memory and returns \<open>scores[name] || 0\<close>.\<close>

definition getTechScore :: "jsstring \<Rightarrow> world \<Rightarrow> jsval \<times> world" where
  "getTechScore techName w =
     (let scores = (case techScores (data w) of None \<Rightarrow> [] | Some sc \<Rightarrow> sc);
          v = getProp scores techName
      in (if truthy v then v else JNum 0, w\<lparr>data := (data w)\<lparr>techScores := Some scores\<rparr>\<rparr>))"


section \<open>The assistant\<close>

subsection \<open>Rule 3: greetings\<close>

definition firstGreetingText :: jsstring where
  "firstGreetingText =
     [161] @ asc ''Hola! '' @ [55357, 56395] @ asc '' '' @ [161] @ asc ''Qu'' @ [233]
       @ asc '' gusto saludarte! '' @ [55357, 56842]
       @ asc '' Soy el Asistente PCB de la Escuela Superior Vocacional Pablo Col'' @ [243]
       @ asc ''n Berdecia. Estoy aqu'' @ [237]
       @ asc '' para ayudarte con cualquier duda que tengas sobre nuestros servicios, horarios o cualquier informaci''
       @ [243] @ asc ''n de la escuela. '' @ [191] @ asc ''En qu'' @ [233]
       @ asc '' puedo servirte hoy?''"

definition greetings :: "jsstring list" where
  "greetings =
     [[161] @ asc ''Hola de nuevo! '' @ [55357, 56842] @ asc '' '' @ [191] @ asc ''En qu''
        @ [233] @ asc '' puedo ayudarte hoy?'',
      [161] @ asc ''Buenos d'' @ [237] @ asc ''as/tardes! '' @ [55356, 57119] @ asc '' ''
        @ [191] @ asc ''En qu'' @ [233] @ asc '' te puedo asistir?'',
      [161] @ asc ''Hey! '' @ [55357, 56395] @ asc '' '' @ [161]
        @ asc ''Me alegra verte de nuevo! '' @ [191] @ asc ''Qu'' @ [233]
        @ asc '' necesitas saber?'',
      [161] @ asc ''Hola! '' @ [55357, 56842] @ asc '' '' @ [191]
        @ asc ''Tienes alguna pregunta sobre la escuela?'']"

definition isGreeting :: "jsstring \<Rightarrow> bool" where
  "isGreeting q =
     (str_includes q (asc ''hola'') \<or> str_includes q (asc ''buenos'')
        \<or> str_includes q (asc ''buenas'') \<or> str_includes q (asc ''hey'')
        \<or> str_includes q (asc ''hi''))"

text \<open>
  \<open>xs[Math.floor(Math.random() * xs.length)]\<close>. Every pool of the source has an entry, so
  the index is below the length; the guard only makes the function total.
\<close>

definition pick :: "jsstring list \<Rightarrow> world \<Rightarrow> jsstring \<times> world" where
  "pick xs w =
     (let (i, w1) = randomBelow (length xs) w
      in (if i < length xs then xs ! i else asc ''undefined'', w1))"

text \<open>
  The test \<open>if (this.data.firstGreeting)\<close> holds for the value \<open>true\<close> only: the flag is
  \<open>true\<close>, \<open>false\<close> or missing.
\<close>

definition greet :: "world \<Rightarrow> jsstring \<times> world" where
  "greet w =
     (if firstGreeting (data w) = Some True
      then (firstGreetingText, saveData (w\<lparr>data := (data w)\<lparr>firstGreeting := Some False\<rparr>\<rparr>))
      else pick greetings w)"

subsection \<open>The rules without state\<close>

text \<open>
  After the greeting, the source is a sequence of \<open>if (condition) return answer;\<close>, the
  condition a combination of \<open>lowerQ.includes(...)\<close>. Each is a rule of the table below,
  in the order of the source; the table is cut where the source has its section comments.
  An answer is one text, or a pool from which one text is drawn.
\<close>

datatype reply = Fixed jsstring | Pool "jsstring list"

type_synonym rule = "(jsstring \<Rightarrow> bool) \<times> reply"

abbreviation has :: "jsstring \<Rightarrow> jsstring \<Rightarrow> bool" where
  "has q k \<equiv> str_includes q k"

definition rulesSocial :: "rule list" where
  "rulesSocial =
     [(\<lambda>q. has q (asc ''adi'' @ [243] @ asc ''s'') \<or> has q (asc ''adios'')
            \<or> has q (asc ''bye'') \<or> has q (asc ''hasta luego'')
            \<or> has q (asc ''nos vemos''),
       Pool [[161] @ asc ''Adi'' @ [243] @ asc ''s! '' @ [55357, 56395]
              @ asc '' Fue un placer ayudarte. '' @ [161] @ asc ''Que tengas un excelente d''
              @ [237] @ asc ''a!'',
            [161] @ asc ''Hasta luego! '' @ [55357, 56842] @ asc '' Si necesitas algo m''
              @ [225] @ asc ''s, aqu'' @ [237] @ asc '' estar'' @ [233] @ asc ''.'',
            [161] @ asc ''Bye! '' @ [55357, 56395] @ asc '' '' @ [161]
              @ asc ''Que te vaya muy bien en tu d'' @ [237] @ asc ''a!'',
            [161] @ asc ''Nos vemos! '' @ [55356, 57119] @ asc '' Fue un gusto asistirte.'']),
      (\<lambda>q. has q (asc ''gracias'') \<or> has q (asc ''thank'')
            \<or> has q (asc ''te lo agradezco'') \<or> has q (asc ''muchas gracias''),
       Pool [[161] @ asc ''De nada! '' @ [55357, 56842] @ asc '' '' @ [161]
              @ asc ''Para eso estoy aqu'' @ [237] @ asc ''! '' @ [191] @ asc ''Hay algo m''
              @ [225] @ asc ''s en lo que pueda ayudarte?'',
            [161] @ asc ''Con mucho gusto! '' @ [55357, 56836] @ asc '' Si tienes m'' @ [225]
              @ asc ''s preguntas, no dudes en preguntar.'',
            [161] @ asc ''Para eso estamos! '' @ [55357, 56842] @ asc '' '' @ [191]
              @ asc ''Necesitas algo m'' @ [225] @ asc ''s?'',
            [161] @ asc ''De nada! '' @ [55357, 56908] @ asc '' Estoy para servirte. ''
              @ [191] @ asc ''En qu'' @ [233] @ asc '' m'' @ [225] @ asc ''s puedo ayudarte?''])]"

definition rulesNavigation :: "rule list" where
  "rulesNavigation =
     [(\<lambda>q. has q (asc ''matr'' @ [237] @ asc ''cula'') \<or> has q (asc ''matricula'')
            \<or> has q (asc ''inscribirme'') \<or> has q (asc ''inscripci'' @ [243] @ asc ''n''),
       Fixed (asc ''Para realizar tu matr'' @ [237] @ asc ''cula, te llevo a la secci'' @ [243]
             @ asc ''n correspondiente '' @ [55357, 56393]
             @ asc '' <a href='matricula.html'>Matr'' @ [237] @ asc ''cula Online</a>. All''
             @ [237] @ asc '' podr'' @ [225] @ asc ''s completar el formulario de inscripci''
             @ [243] @ asc ''n de forma f'' @ [225] @ asc ''cil y r'' @ [225] @ asc ''pida. ''
             @ [191] @ asc ''Necesitas ayuda con algo m'' @ [225] @ asc ''s?'')),
      (\<lambda>q. (has q (asc ''solicitud'') \<or> has q (asc ''solicitar''))
            \<and> (has q (asc ''documento'')
            \<or> has q (asc ''certificaci'' @ [243] @ asc ''n'')
            \<or> has q (asc ''transcripci'' @ [243] @ asc ''n'') \<or> has q (asc ''record'')),
       Fixed (asc ''Por supuesto, puedo ayudarte con eso '' @ [55357, 56516]
             @ asc ''. Te llevo a la secci'' @ [243] @ asc ''n de solicitudes '' @ [55357, 56393]
             @ asc '' <a href='solicitudes.html'>Solicitud de Documentos</a>. All'' @ [237]
             @ asc '' puedes pedir certificaciones, transcripciones y m'' @ [225] @ asc ''s. ''
             @ [191] @ asc ''Te gustar'' @ [237] @ asc ''a saber algo m'' @ [225] @ asc ''s?'')),
      (\<lambda>q. has q (asc ''servicio'') \<and> has q (asc ''t'' @ [233] @ asc ''cnico'')
            \<or> has q (asc ''soporte t'' @ [233] @ asc ''cnico'')
            \<or> has q (asc ''mantenimiento''),
       Fixed (asc ''Para soporte t'' @ [233]
             @ asc ''cnico y mantenimiento de equipos, visita nuestra secci'' @ [243] @ asc ''n ''
             @ [55357, 56393] @ asc '' <a href='servicios-tecnicos.html'>Servicios T'' @ [233]
             @ asc ''cnicos</a>. Nuestro equipo te ayudar'' @ [225]
             @ asc '' con cualquier problema de tecnolog'' @ [237] @ asc ''a. '' @ [191]
             @ asc ''Hay algo espec'' @ [237] @ asc ''fico que necesites?'')),
      (\<lambda>q. has q (asc ''enfermer'' @ [237] @ asc ''a'') \<or> has q (asc ''enfermeria'')
            \<or> has q (asc ''enfermero'') \<or> has q (asc ''m'' @ [233] @ asc ''dico'')
            \<or> has q (asc ''medico'') \<or> has q (asc ''salud''),
       Fixed (asc ''Para atenci'' @ [243] @ asc ''n de enfermer'' @ [237]
             @ asc ''a y servicios de salud '' @ [55357, 56393]
             @ asc '' <a href='enfermeria.html'>Enfermer'' @ [237]
             @ asc ''a</a>. Tenemos personal capacitado para atender urgencias b'' @ [225]
             @ asc ''sicas y administrar medicamentos con autorizaci'' @ [243] @ asc ''n. ''
             @ [191] @ asc ''Necesitas m'' @ [225] @ asc ''s informaci'' @ [243] @ asc ''n?'')),
      (\<lambda>q. has q (asc ''orientaci'' @ [243] @ asc ''n'') \<or> has q (asc ''orientacion'')
            \<or> has q (asc ''consejero'') \<or> has q (asc ''psic'' @ [243] @ asc ''logo'')
            \<or> has q (asc ''apoyo''),
       Fixed (asc ''Para orientaci'' @ [243] @ asc ''n acad'' @ [233]
             @ asc ''mica y apoyo psicol'' @ [243] @ asc ''gico '' @ [55357, 56393]
             @ asc '' <a href='orientacion.html'>Orientaci'' @ [243]
             @ asc ''n</a>. Nuestros consejeros est'' @ [225]
             @ asc ''n disponibles para ayudarte con cualquier situaci'' @ [243] @ asc ''n acad''
             @ [233] @ asc ''mica o personal. '' @ [191] @ asc ''En qu'' @ [233]
             @ asc '' puedo orientarte?'')),
      (\<lambda>q. has q (asc ''biblioteca'') \<or> has q (asc ''libro'')
            \<or> has q (asc ''pr'' @ [233] @ asc ''stamo'') \<or> has q (asc ''prestamo''),
       Fixed (asc ''Para la biblioteca y pr'' @ [233] @ asc ''stamos de libros ''
             @ [55357, 56393] @ asc '' <a href='biblioteca.html'>Biblioteca</a>. Nuestro cat''
             @ [225] @ asc ''logo tiene muchos recursos de estudio disponibles. '' @ [191]
             @ asc ''Buscas alg'' @ [250] @ asc ''n libro en espec'' @ [237] @ asc ''fico?'')),
      (\<lambda>q. has q (asc ''comedor'') \<or> has q (asc ''almuerzo'') \<or> has q (asc ''comida'')
            \<or> has q (asc ''desayuno''),
       Fixed (asc ''Para el servicio de comedor y ver el men'' @ [250] @ asc '' ''
             @ [55357, 56393]
             @ asc '' <a href='comedor.html'>Comedor</a>. Sirvimos almuerzos de 11:00 AM a 1:00 PM. ''
             @ [191] @ asc ''Tienes alguna pregunta sobre la comida?'')),
      (\<lambda>q. has q (asc ''portal'') \<and> (has q (asc ''padres'') \<or> has q (asc ''familia'')
            \<or> has q (asc ''padre'')),
       Fixed (asc ''Para el portal de comunicaci'' @ [243] @ asc ''n con padres ''
             @ [55357, 56393] @ asc '' <a href='padres.html'>Portal de Padres</a>. All'' @ [237]
             @ asc '' puedes comunicarte directamente con los maestros y ver informaci'' @ [243]
             @ asc ''n de tus hijos. '' @ [191] @ asc ''Necesitas algo m'' @ [225] @ asc ''s?'')),
      (\<lambda>q. has q (asc ''seguridad'') \<or> has q (asc ''visita'') \<or> has q (asc ''visitante'')
            \<or> has q (asc ''incidente''),
       Fixed (asc ''Para temas de seguridad y registro de visitantes '' @ [55357, 56393]
             @ asc '' <a href='seguridad.html'>Seguridad</a>. Puedes registrar visitantes y reportar incidentes. ''
             @ [191] @ asc ''En qu'' @ [233] @ asc '' puedo ayudarte?'')),
      (\<lambda>q. (has q (asc ''dashboard'') \<or> has q (asc ''evidencia'')
            \<or> has q (asc ''seguimiento'')) \<and> (has q (asc ''acad'' @ [233] @ asc ''mico'')
            \<or> has q (asc ''academic'')),
       Fixed (asc ''Para ver el dashboard de evidencia y seguimiento acad'' @ [233]
             @ asc ''mico '' @ [55357, 56393]
             @ asc '' <a href='evidencia.html'>Dashboard Evidencia</a>. '' @ [191]
             @ asc ''Necesitas informaci'' @ [243] @ asc ''n adicional sobre el seguimiento?'')),
      (\<lambda>q. has q (asc ''correos'') \<and> (has q (asc ''maestro'') \<or> has q (asc ''profesor'')
            \<or> has q (asc ''teacher'') \<or> has q (asc ''electr'' @ [243] @ asc ''nico'')),
       Fixed (asc ''Aqu'' @ [237] @ asc '' puedes ver los correos electr'' @ [243]
             @ asc ''nicos de los maestros '' @ [55357, 56393]
             @ asc '' <a href='correos-maestros-tabla.html'>Correos Electr'' @ [243]
             @ asc ''nicos</a>. '' @ [191] @ asc ''Necesitas contactar a alg'' @ [250]
             @ asc ''n profesor en espec'' @ [237] @ asc ''fico?'')),
      (\<lambda>q. has q (asc ''microsoft'') \<and> has q (asc ''teams''),
       Fixed (asc ''Para acceder a Microsoft Teams (clases virtuales) '' @ [55357, 56393]
             @ asc '' <a href='https://login.microsoftonline.com/common/oauth2/v2.0/authorize?client_id=5e3ce6c0-2b1f-4285-8d4b-75ee78787346&scope=openId%20profile%20openid%20offline_access&redirect_uri=https%3A%2F%2Fteams.microsoft.com%2Fv2&client-request-id=019be6e8-5a6c-7d37-b129-894db9c8d8ef&response_mode=fragment&response_type=code&x-client-SKU=msal.js.browser&x-client-VER=3.30.0&client_info=1&code_challenge=6ZqFlWHLh3RpNojFPjlqU4h9HyciQoVF24L_a1_WF4A&code_challenge_method=S256&nonce=019be6e8-5a6d-7bdb-9075-c5ce0aa099ac&state=eyJpZCI6IjAxOWJlNmU4LTVhNmMtNzY0OS1hNGRlLWQ4YTQ0MTU4OGMxYyIsIm1ldGEiOnsiaW50ZXJhY3Rpb25UeXBlIjoicmVkaXJlY3QifX0%3D%7Chttps%3A%2F%2Fteams.microsoft.com%2Fv2%2F%3Fculture%3Den-us%26country%3Dus%26enablemcasfort21%3Dtrue' target='_blank'>Microsoft Teams</a>. ''
             @ [161] @ asc ''Que tengas una buena clase! '' @ [55357, 56538])),
      (\<lambda>q. has q (asc ''power'') \<and> has q (asc ''de''),
       Fixed (asc ''Para acceder a Power DE (portal de informaci'' @ [243]
             @ asc ''n estudiantil) '' @ [55357, 56393]
             @ asc '' <a href='https://informacionestudiantil.dde.pr/public/create_multi_student_account.html' target='_blank'>Power DE</a>. ''
             @ [191] @ asc ''Necesitas ayuda con tu cuenta?'')),
      (\<lambda>q. has q (asc ''calcular'') \<and> (has q (asc ''igs'')
            \<or> has q ([237] @ asc ''ndice'') \<or> has q (asc ''indice'')
            \<or> has q (asc ''promedio'')),
       Fixed (asc ''Para calcular tu '' @ [205] @ asc ''ndice de Graduaci'' @ [243]
             @ asc ''n Secund'' @ [225] @ asc ''ria (IGS) '' @ [55357, 56393]
             @ asc '' <a href='https://admisiones.upr.edu/calculadora-igs/' target='_blank'>Calculadora IGS</a>. ''
             @ [161, 201] @ asc ''xito en tus c'' @ [225] @ asc ''lculos! '' @ [55357, 56522])),
      (\<lambda>q. has q (asc ''deporte'') \<or> has q (asc ''deportes'') \<or> has q (asc ''athlet'')
            \<or> has q (asc ''ejercicio''),
       Fixed (asc ''Para ver las actividades deportivas '' @ [55357, 56393]
             @ asc '' <a href='deportes.html'>Deportes</a>. Tenemos varias disciplinas disponibles. ''
             @ [191] @ asc ''Cu'' @ [225] @ asc ''l te interesa?''))]"

definition rulesCapabilities :: "rule list" where
  "rulesCapabilities =
     [(\<lambda>q. has q (asc ''qu'' @ [233] @ asc '' puedes hacer'')
            \<or> has q (asc ''que puedes hacer'') \<or> has q (asc ''  '')
            \<or> has q (asc ''que haces'') \<or> has q (asc ''para qu'' @ [233] @ asc '' sirve'')
            \<or> has q (asc ''para que sirve'')
            \<or> has q (asc ''c'' @ [243] @ asc ''mo me ayudas'')
            \<or> has q (asc ''como me ayudas'') \<or> has q (asc ''qu'' @ [233] @ asc '' sabes'')
            \<or> has q (asc ''que sabes'') \<or> has q (asc ''qu'' @ [233] @ asc '' servicios'')
            \<or> has q (asc ''que servicios'')
            \<or> has q (asc ''dime qu'' @ [233] @ asc '' puedes'')
            \<or> has q (asc ''dime que puedes''),
       Fixed ([161] @ asc ''Excelente! '' @ [55357, 56842]
             @ asc '' Soy el <strong>Asistente PCB</strong> y puedo ayudarte con muchas cosas:<br><br>''
             @ [55356, 57235] @ asc '' <strong>Informaci'' @ [243]
             @ asc ''n de la Escuela</strong>: Horarios, ubicaci'' @ [243]
             @ asc ''n, contacto, informaci'' @ [243] @ asc ''n general<br><br>'' @ [55357, 56541]
             @ asc '' <strong>Matr'' @ [237] @ asc ''cula</strong>: Proceso de inscripci'' @ [243]
             @ asc ''n, requisitos, fechas<br><br>'' @ [55357, 56516]
             @ asc '' <strong>Solicitud de Documentos</strong>: Certificaciones, transcripciones, Records acad''
             @ [233] @ asc ''micos<br><br>'' @ [55357, 56615] @ asc '' <strong>Servicios T''
             @ [233] @ asc ''cnicos</strong>: Soporte t'' @ [233]
             @ asc ''cnico, mantenimiento de equipos<br><br>'' @ [55356, 57317]
             @ asc '' <strong>Enfermer'' @ [237] @ asc ''a</strong>: Atenci'' @ [243]
             @ asc ''n m'' @ [233] @ asc ''dica, medicamentos, emergencias<br><br>''
             @ [55357, 56492] @ asc '' <strong>Orientaci'' @ [243]
             @ asc ''n</strong>: Apoyo acad'' @ [233] @ asc ''mico, psicol'' @ [243]
             @ asc ''gico, consejer'' @ [237] @ asc ''a<br><br>'' @ [55357, 56538]
             @ asc '' <strong>Biblioteca</strong>: Pr'' @ [233] @ asc ''stamo de libros, cat''
             @ [225] @ asc ''logo, reservas<br><br>'' @ [55356, 57213, 65039]
             @ asc '' <strong>Comedor</strong>: Men'' @ [250] @ asc '', horarios, informaci''
             @ [243] @ asc ''n de almuerzo<br><br>''
             @ [55357, 56424, 8205, 55357, 56425, 8205, 55357, 56423]
             @ asc '' <strong>Portal de Padres</strong>: Comunicaci'' @ [243]
             @ asc ''n con maestros, informaci'' @ [243] @ asc ''n de estudiantes<br><br>''
             @ [55357, 57057, 65039]
             @ asc '' <strong>Seguridad</strong>: Registro de visitantes, reportar incidentes<br><br>''
             @ [55357, 56522] @ asc '' <strong>Evidencia Acad'' @ [233]
             @ asc ''mica</strong>: Dashboard de seguimiento, reportes<br><br>'' @ [55357, 56551]
             @ asc '' <strong>Correos de Maestros</strong>: Directorio de contactos<br><br>''
             @ [55357, 56507]
             @ asc '' <strong>Recursos Digitales</strong>: Microsoft Teams, Power DE, Calculadora IGS<br><br>''
             @ [55356, 57283]
             @ asc '' <strong>Deportes</strong>: Actividades deportivas, programas<br><br>''
             @ [10067]
             @ asc '' <strong>Responder Preguntas</strong>: Dudas generales sobre la escuela<br><br>''
             @ [55357, 56589] @ asc '' <strong>Gu'' @ [237] @ asc ''a y Orientaci'' @ [243]
             @ asc ''n</strong>: Te ayudo a encontrar lo que necesitas<br><br>'' @ [161]
             @ asc ''Simplemente preg'' @ [250] @ asc ''ntame lo que necesites saber! ''
             @ [55357, 56842]))]"

definition rulesSchool :: "rule list" where
  "rulesSchool =
     [(\<lambda>q. has q (asc ''qu'' @ [233] @ asc '' es'')
            \<or> has q (asc ''qu'' @ [233] @ asc '' es'') \<or> has q (asc ''quien eres'')
            \<or> has q (asc ''qui'' @ [233] @ asc ''n eres'')
            \<or> has q (asc ''qu'' @ [233] @ asc '' haces'')
            \<or> has q (asc ''para qu'' @ [233]),
       Fixed ([161] @ asc ''Excelente pregunta! '' @ [55357, 56842]
             @ asc '' Soy el <strong>Asistente Virtual PCB</strong> de la <strong>Escuela Superior Vocacional Pablo Col''
             @ [243] @ asc ''n Berdecia</strong>. Estoy aqu'' @ [237]
             @ asc '' para orientarte y ayudarte a encontrar la informaci'' @ [243]
             @ asc ''n que necesitas sobre nuestros servicios, horarios, procesos y m'' @ [225]
             @ asc ''s. '' @ [161] @ asc ''Preg'' @ [250] @ asc ''ntame lo que quieras!'')),
      (\<lambda>q. has q (asc ''d'' @ [243] @ asc ''nde est'' @ [225])
            \<or> has q (asc ''donde est'' @ [225])
            \<or> has q (asc ''ubicaci'' @ [243] @ asc ''n'')
            \<or> has q (asc ''direcci'' @ [243] @ asc ''n'') \<or> has q (asc ''direccion''),
       Fixed (asc ''La Escuela Superior Vocacional Pablo Col'' @ [243] @ asc ''n Berdecia est''
             @ [225] @ asc '' ubicada en '' @ [55357, 56525]
             @ asc '' <strong>Puerto Rico</strong>. Para m'' @ [225] @ asc ''s detalles espec''
             @ [237] @ asc ''ficos sobre la direcci'' @ [243]
             @ asc ''n, te recomiendo contactar a la oficina principal. '' @ [191]
             @ asc ''Te gustar'' @ [237] @ asc ''a que te proporcione m'' @ [225]
             @ asc ''s informaci'' @ [243] @ asc ''n de contacto?'')),
      (\<lambda>q. has q (asc ''tel'' @ [233] @ asc ''fono'') \<or> has q (asc ''telefono'')
            \<or> has q (asc ''llamar'') \<or> has q (asc ''contacto'')
            \<or> has q (asc ''correo''),
       Fixed (asc ''Para contactar a la escuela, puedes usar el formulario en nuestra secci''
             @ [243] @ asc ''n de '' @ [55357, 56542]
             @ asc '' <a href='index.html#contacto'>Contacto</a>. All'' @ [237]
             @ asc '' encontrar'' @ [225] @ asc ''s los n'' @ [250] @ asc ''meros telef'' @ [243]
             @ asc ''nicos y correos electr'' @ [243] @ asc ''nicos disponibles. '' @ [191]
             @ asc ''Necesitas algo m'' @ [225] @ asc ''s espec'' @ [237] @ asc ''fico?'')),
      (\<lambda>q. has q (asc ''horario'') \<or> has q (asc ''hora'') \<or> has q (asc ''cuando''),
       Fixed (asc ''El horario escolar regular es de <strong>7:30 AM a 2:30 PM</strong> para los estudiantes. ''
             @ [55357, 56517]
             @ asc '' La oficina administrativa suele estar abierta de 8:00 AM a 3:00 PM. ''
             @ [191] @ asc ''Tienes alguna duda sobre un horario espec'' @ [237] @ asc ''fico?'')),
      (\<lambda>q. has q (asc ''cu'' @ [225] @ asc ''ndo empieza'') \<or> has q (asc ''cuando empieza'')
            \<or> has q (asc ''inicio'') \<and> (has q (asc ''clase'') \<or> has q (asc ''curso'')
            \<or> has q (asc ''a'' @ [241] @ asc ''o'')),
       Fixed (asc ''El a'' @ [241] @ asc ''o acad'' @ [233] @ asc ''mico t'' @ [237]
             @ asc ''picamente comienza en agosto. '' @ [55357, 56517]
             @ asc '' Te recomiendo estar atento a nuestras publicaciones y avisos para las fechas exactas de matr''
             @ [237] @ asc ''cula e inicio de clases. '' @ [191] @ asc ''Necesitas informaci''
             @ [243] @ asc ''n sobre la matr'' @ [237] @ asc ''cula?''))]"

definition rulesServices :: "rule list" where
  "rulesServices =
     [(\<lambda>q. has q (asc ''servicio'') \<and> (has q (asc ''qu'' @ [233])
            \<or> has q (asc ''cuales'') \<or> has q (asc ''cu'' @ [225] @ asc ''les'')
            \<or> has q (asc ''tienes'') \<or> has q (asc ''ofrec'')),
       Fixed ([161] @ asc ''Con gusto te informo! '' @ [55356, 57235]
             @ asc '' La Escuela Superior Vocacional Pablo Col'' @ [243]
             @ asc ''n Berdecia ofrece estos servicios:<br><br>'' @ [55357, 56538]
             @ asc '' <a href='matricula.html'>Matr'' @ [237] @ asc ''cula Online</a>: Inscr''
             @ [237] @ asc ''bete f'' @ [225] @ asc ''cilmente<br>'' @ [55357, 56516]
             @ asc '' <a href='solicitudes.html'>Solicitud de Documentos</a>: Certificaciones, transcripciones<br>''
             @ [55357, 56615] @ asc '' <a href='servicios-tecnicos.html'>Servicios T'' @ [233]
             @ asc ''cnicos</a>: Soporte tecnol'' @ [243] @ asc ''gico<br>'' @ [55356, 57317]
             @ asc '' <a href='enfermeria.html'>Enfermer'' @ [237] @ asc ''a</a>: Atenci'' @ [243]
             @ asc ''n m'' @ [233] @ asc ''dica b'' @ [225] @ asc ''sica<br>'' @ [55357, 56492]
             @ asc '' <a href='orientacion.html'>Orientaci'' @ [243] @ asc ''n</a>: Apoyo psicol''
             @ [243] @ asc ''gico y acad'' @ [233] @ asc ''mico<br>'' @ [55357, 56534]
             @ asc '' <a href='biblioteca.html'>Biblioteca</a>: Pr'' @ [233]
             @ asc ''stamo de libros<br>'' @ [55356, 57213, 65039]
             @ asc '' <a href='comedor.html'>Comedor</a>: Alimentaci'' @ [243]
             @ asc ''n escolar<br>'' @ [55357, 56424, 8205, 55357, 56425, 8205, 55357, 56423]
             @ asc '' <a href='padres.html'>Portal de Padres</a>: Comunicaci'' @ [243]
             @ asc ''n familiar<br>'' @ [55357, 57057, 65039]
             @ asc '' <a href='seguridad.html'>Seguridad</a>: Registro de visitantes<br>''
             @ [55357, 56522]
             @ asc '' <a href='evidencia.html'>Dashboard Evidencia</a>: Seguimiento acad'' @ [233]
             @ asc ''mico<br>'' @ [55356, 57283]
             @ asc '' <a href='deportes.html'>Deportes</a>: Actividades f'' @ [237]
             @ asc ''sicas<br><br>'' @ [161] @ asc ''Dime cu'' @ [225]
             @ asc ''l te interesa y te ayudo! '' @ [55357, 56842])),
      (\<lambda>q. has q (asc ''estado'') \<and> (has q (asc ''solicitud'') \<or> has q (asc ''ticket'')
            \<or> has q (asc ''pedido'')),
       Fixed (asc ''Para consultar el estado de tu solicitud, te recomiendo visitar la secci''
             @ [243]
             @ asc ''n donde la creaste o contactar directamente a la oficina administrativa ''
             @ [55357, 56542] @ asc ''. ellos podr'' @ [225] @ asc ''n darte informaci'' @ [243]
             @ asc ''n actualizada sobre tu caso. '' @ [191] @ asc ''Tienes el n'' @ [250]
             @ asc ''mero de solicitud?'')),
      (\<lambda>q. has q (asc ''cu'' @ [225] @ asc ''nto'') \<and> (has q (asc ''tarda'')
            \<or> has q (asc ''demora'') \<or> has q (asc ''tiempo'')),
       Fixed (asc ''El tiempo de procesamiento var'' @ [237] @ asc ''a seg'' @ [250]
             @ asc ''n el tipo de solicitud '' @ [55357, 56523] @ asc ''. Generalmente:<br><br>''
             @ [8226] @ asc '' Documentos simples: 2-3 d'' @ [237] @ asc ''as h'' @ [225]
             @ asc ''biles<br>'' @ [8226] @ asc '' Certificaciones: 3-5 d'' @ [237] @ asc ''as h''
             @ [225] @ asc ''biles<br>'' @ [8226] @ asc '' Matr'' @ [237]
             @ asc ''culas: Depende del per'' @ [237]
             @ asc ''odo<br><br>Te recomiendo presentar tu solicitud con anticipaci'' @ [243]
             @ asc ''n. '' @ [191] @ asc ''Necesitas algo m'' @ [225] @ asc ''s?''))]"

definition rulesHelp :: "rule list" where
  "rulesHelp =
     [(\<lambda>q. has q (asc ''ayuda'') \<or> has q (asc ''help'') \<or> has q (asc ''auxilio'')
            \<or> has q (asc ''socorro''),
       Fixed ([161] @ asc ''Claro que s'' @ [237] @ asc ''! '' @ [55357, 56842]
             @ asc '' Estoy aqu'' @ [237]
             @ asc '' para ayudarte. Puedo orientarte sobre:<br><br>'' @ [9989]
             @ asc '' Procesos de matr'' @ [237] @ asc ''cula y solicitudes<br>'' @ [9989]
             @ asc '' Horarios de servicios (comedor, biblioteca, etc.)<br>'' @ [9989]
             @ asc '' Informaci'' @ [243] @ asc ''n de contacto<br>'' @ [9989] @ asc '' Navegaci''
             @ [243] @ asc ''n en el sistema<br>'' @ [9989]
             @ asc '' Y cualquier otra duda sobre la escuela<br><br>'' @ [191] @ asc ''Qu''
             @ [233] @ asc '' necesitas saber?'')),
      (\<lambda>q. has q (asc ''no entiendo'') \<or> has q (asc ''confundido'')
            \<or> has q (asc ''perdido'') \<or> has q (asc ''ay'' @ [250] @ asc ''dame'')
            \<or> has q (asc ''ayudame''),
       Fixed ([161] @ asc ''No te preocupes! '' @ [55357, 56842] @ asc '' Estoy aqu'' @ [237]
             @ asc '' para ayudarte. Trata de explicarme tu duda con tus propias palabras y con gusto te ayudo a encontrar lo que necesitas. Tambi''
             @ [233] @ asc ''n puedes preguntarme directamente por un servicio espec'' @ [237]
             @ asc ''fico. '' @ [191] @ asc ''Qu'' @ [233] @ asc '' necesitas?''))]"

definition rulesFollowUp :: "rule list" where
  "rulesFollowUp =
     [(\<lambda>q. has q (asc ''s'' @ [237]) \<or> has q (asc ''si'')
            \<or> has q (asc ''tambi'' @ [233] @ asc ''n'') \<or> has q (asc ''tambien'')
            \<or> has q (asc ''perfecto'') \<or> has q (asc ''ok'')
            \<or> has q (asc ''de acuerdo''),
       Pool [[161] @ asc ''Perfecto! '' @ [55357, 56842] @ asc '' '' @ [191]
              @ asc ''Hay algo m'' @ [225] @ asc ''s en lo que pueda ayudarte?'',
            [161] @ asc ''Genial! '' @ [55357, 56836] @ asc '' '' @ [191]
              @ asc ''Tienes alguna otra pregunta?'',
            [161] @ asc ''Excelente! '' @ [55357, 56397] @ asc '' '' @ [191] @ asc ''En qu''
              @ [233] @ asc '' m'' @ [225] @ asc ''s puedo asistirte?'',
            [161] @ asc ''Qu'' @ [233] @ asc '' bueno! '' @ [55356, 57225] @ asc '' '' @ [191]
              @ asc ''Necesitas m'' @ [225] @ asc ''s informaci'' @ [243] @ asc ''n?'']),
      (\<lambda>q. has q (asc ''no'') \<and> (has q (asc ''gracias'') \<or> has q (asc ''nada'')
            \<or> has q (asc ''otro'')),
       Pool [[161] @ asc ''De nada! '' @ [55357, 56842] @ asc '' '' @ [161]
              @ asc ''Que tengas un excelente d'' @ [237] @ asc ''a! Si necesitas algo m'' @ [225]
              @ asc ''s, aqu'' @ [237] @ asc '' estar'' @ [233] @ asc ''.'',
            [161] @ asc ''Para eso estoy! '' @ [55357, 56908] @ asc '' '' @ [161]
              @ asc ''Que te vaya muy bien!'',
            [161] @ asc ''Fue un placer ayudarte! '' @ [55357, 56395] @ asc '' '' @ [161]
              @ asc ''hasta pronto!''])]"

definition rulesMisc :: "rule list" where
  "rulesMisc =
     [(\<lambda>q. has q (asc ''c'' @ [243] @ asc ''mo est'' @ [225] @ asc ''s'')
            \<or> has q (asc ''como est'' @ [225] @ asc ''s'')
            \<or> has q (asc ''qu'' @ [233] @ asc '' tal'') \<or> has q (asc ''que tal'')
            \<or> has q (asc ''como te va'') \<or> has q (asc ''qu'' @ [233] @ asc '' onda'')
            \<or> has q (asc ''que onda'') \<or> has q (asc ''qu'' @ [233] @ asc '' pasa'')
            \<or> has q (asc ''que pasa''),
       Pool [[161] @ asc ''Estoy bien, gracias! '' @ [191] @ asc ''C'' @ [243]
              @ asc ''mo van tus clases hoy? '' @ [191]
              @ asc ''Necesitas ayuda con alguna materia?'',
            [161] @ asc ''Todo en orden! '' @ [191]
              @ asc ''Tienes alguna duda sobre tareas, horarios o el calendario escolar?'',
            [161] @ asc ''Listo para ayudar! '' @ [191]
              @ asc ''Hay alguna asignatura con la que quieras apoyo o informaci'' @ [243]
              @ asc ''n?'',
            [161] @ asc ''Muy bien! '' @ [191]
              @ asc ''Te interesa revisar alguna tarea, evento escolar o recurso acad'' @ [233]
              @ asc ''mico ahora?'',
            [161] @ asc ''Bien, gracias! '' @ [191]
              @ asc ''Prefieres que te muestre recursos de estudio, el calendario o el men''
              @ [250] @ asc '' del comedor?'',
            asc ''Me encuentro listo para asistirte. '' @ [191]
              @ asc ''Quieres ayuda con una tarea, preparar un examen o consultar una fecha importante?'',
            [161] @ asc ''Todo tranquilo por aqu'' @ [237] @ asc ''! '' @ [191] @ asc ''Est''
              @ [225] @ asc ''s buscando informaci'' @ [243]
              @ asc ''n sobre tus clases, el horario o alguna actividad escolar?'',
            asc ''Perfecto, gracias. '' @ [191] @ asc ''Te gustar'' @ [237]
              @ asc ''a revisar las '' @ [250] @ asc ''ltimas novedades de la escuela o tus pr''
              @ [243] @ asc ''ximas evaluaciones?'',
            [161] @ asc ''Listo para apoyar! '' @ [191]
              @ asc ''Necesitas consejos de estudio, material de apoyo o ayuda para contactar a un profesor?'',
            asc ''Muy bien, gracias. '' @ [191]
              @ asc ''Quieres que busque eventos en el calendario, horarios de la escuela o informaci''
              @ [243] @ asc ''n de matr'' @ [237] @ asc ''cula?'',
            asc ''Estoy bien, '' @ [191] @ asc ''prefieres un tono m'' @ [225]
              @ asc ''s formal o m'' @ [225]
              @ asc ''s informal en mis respuestas? Puedo adaptarme al estilo acad'' @ [233]
              @ asc ''mico que prefieras.'',
            [161] @ asc ''Gracias por preguntar! '' @ [191] @ asc ''Te gustar'' @ [237]
              @ asc ''a que te recuerde tareas pendientes o eventos pr'' @ [243]
              @ asc ''ximos del colegio?'']),
      (\<lambda>q. has q (asc ''tu nombre'') \<or> has q (asc ''c'' @ [243] @ asc ''mo te llamas'')
            \<or> has q (asc ''como te llamas''),
       Fixed (asc ''Me llamo <strong>Asistente PCB</strong> '' @ [55358, 56598]
             @ asc '', soy el asistente virtual de la Escuela Superior Vocacional Pablo Col''
             @ [243] @ asc ''n Berdecia. '' @ [161] @ asc ''Estoy para servirte! ''
             @ [55357, 56842])),
      (\<lambda>q. has q (asc ''clima'') \<or> has q (asc ''tiempo'') \<or> has q (asc ''llover'')
            \<or> has q (asc ''sol''),
       Fixed (asc ''No tengo acceso a informaci'' @ [243] @ asc ''n del clima en tiempo real ''
             @ [55356, 57124, 65039] @ asc '', pero te recomiendo revisar una aplicaci'' @ [243]
             @ asc ''n del clima para verificar las condiciones actuales. '' @ [191]
             @ asc ''Hay algo m'' @ [225] @ asc ''s en lo que pueda ayudarte con la escuela?''))]"

definition rulesCalendar :: "rule list" where
  "rulesCalendar =
     [(\<lambda>q. has q (asc ''calendario'') \<or> has q (asc ''fecha'')
            \<or> has q (asc ''fechas importantes'') \<or> has q (asc ''dates'')
            \<or> has q (asc ''agenda''),
       Fixed ([55357, 56517]
             @ asc '' <strong>Calendario Escolar 2025-2026 - Fechas Importantes:</strong><br><br><strong>FEBRERO:</strong><br>''
             @ [8226]
             @ asc '' 13 de febrero: Reuniones profesionales de facultad y equipo para an''
             @ [225] @ asc ''lisis de intervenciones a estudiantes (tarde)<br>'' @ [8226]
             @ asc '' 16 de febrero: D'' @ [237] @ asc ''a festivo seg'' @ [250]
             @ asc ''n calendario escolar<br>'' @ [8226]
             @ asc '' 19 de febrero: Assessment<br><br><strong>MARZO:</strong><br>'' @ [8226]
             @ asc '' 2 de marzo: D'' @ [237] @ asc ''a festivo<br>'' @ [8226]
             @ asc '' 16 de marzo: Assessment<br>'' @ [8226]
             @ asc '' 20 de marzo: Reuniones profesionales (tarde)<br>'' @ [8226]
             @ asc '' 23 de marzo: D'' @ [237] @ asc ''a festivo<br>'' @ [8226]
             @ asc '' 27 de marzo: Entrega del informe de progreso acad'' @ [233]
             @ asc ''mico<br><br><strong>ABRIL:</strong><br>'' @ [8226]
             @ asc '' 2 de abril: Receso acad'' @ [233]
             @ asc ''mico (personal docente y no docente)<br>'' @ [8226]
             @ asc '' 3 de abril: Feriado<br>'' @ [8226]
             @ asc '' Del 13 de abril al 7 de mayo: Assessment<br><br><strong>MAYO:</strong><br>''
             @ [8226] @ asc '' Del 18 al 22 de mayo: Semana de la Educaci'' @ [243]
             @ asc ''n<br>'' @ [8226] @ asc '' 22 de mayo: Receso acad'' @ [233]
             @ asc ''mico<br>'' @ [8226] @ asc '' 25 de mayo: Feriado<br>'' @ [8226]
             @ asc '' 26 y 27 de mayo: Evaluaciones finales<br>'' @ [8226]
             @ asc '' 29 de mayo: Entrega del informe de progreso acad'' @ [233]
             @ asc ''mico<br><br>'' @ [191] @ asc ''Necesitas informaci'' @ [243] @ asc ''n m''
             @ [225] @ asc ''s espec'' @ [237] @ asc ''fica sobre alguna fecha? ''
             @ [55357, 56842])),
      (\<lambda>q. has q (asc ''assessment'') \<or> has q (asc ''evaluaci'' @ [243] @ asc ''n'')
            \<or> has q (asc ''evaluacion'') \<or> has q (asc ''examen''),
       Fixed ([55357, 56541] @ asc '' <strong>Informaci'' @ [243]
             @ asc ''n sobre Assessments:</strong><br><br><strong>FEBRERO:</strong><br>'' @ [8226]
             @ asc '' 19 de febrero: Assessment<br><br><strong>MARZO:</strong><br>'' @ [8226]
             @ asc '' 16 de marzo: Assessment<br><br><strong>ABRIL - MAYO:</strong><br>'' @ [8226]
             @ asc '' Del 13 de abril al 7 de mayo: Assessment (per'' @ [237]
             @ asc ''odo completo)<br><br>Los assessments son evaluaciones importantes para medir el progreso acad''
             @ [233] @ asc ''mico. '' @ [191] @ asc ''Tienes alguna pregunta espec'' @ [237]
             @ asc ''fica sobre los horarios o preparaci'' @ [243] @ asc ''n? '' @ [55357, 56842])),
      (\<lambda>q. has q (asc ''feriado'') \<or> has q (asc ''d'' @ [237] @ asc ''a festivo'')
            \<or> has q (asc ''dia festivo'') \<or> has q (asc ''festivo'')
            \<or> has q (asc ''libre''),
       Fixed ([55356, 57225] @ asc '' <strong>D'' @ [237]
             @ asc ''as Festivos y Feriados 2025-2026:</strong><br><br><strong>FEBRERO:</strong><br>''
             @ [8226] @ asc '' 16 de febrero: D'' @ [237]
             @ asc ''a festivo<br><br><strong>MARZO:</strong><br>'' @ [8226]
             @ asc '' 2 de marzo: D'' @ [237] @ asc ''a festivo<br>'' @ [8226]
             @ asc '' 23 de marzo: D'' @ [237]
             @ asc ''a festivo<br><br><strong>ABRIL:</strong><br>'' @ [8226]
             @ asc '' 3 de abril: Feriado<br><br><strong>MAYO:</strong><br>'' @ [8226]
             @ asc '' 25 de mayo: Feriado<br><br>'' @ [161] @ asc ''Estos son los d'' @ [237]
             @ asc ''as donde no hay clases! '' @ [191] @ asc ''Necesitas m'' @ [225]
             @ asc ''s informaci'' @ [243] @ asc ''n? '' @ [55357, 56842])),
      (\<lambda>q. has q (asc ''receso'') \<or> has q (asc ''descanso'') \<or> has q (asc ''vacaciones''),
       Fixed ([55356, 57140] @ asc '' <strong>Recesos Acad'' @ [233]
             @ asc ''micos 2025-2026:</strong><br><br><strong>ABRIL:</strong><br>'' @ [8226]
             @ asc '' 2 de abril: Receso acad'' @ [233]
             @ asc ''mico (personal docente y no docente)<br>'' @ [8226]
             @ asc '' 3 de abril: Feriado<br><br><strong>MAYO:</strong><br>'' @ [8226]
             @ asc '' 22 de mayo: Receso acad'' @ [233]
             @ asc ''mico (personal docente y no docente)<br><br>'' @ [191]
             @ asc ''Necesitas informaci'' @ [243] @ asc ''n sobre otros per'' @ [237]
             @ asc ''odos o eventos escolares? '' @ [55357, 56842])),
      (\<lambda>q. has q (asc ''informe'') \<or> has q (asc ''reporte'') \<or> has q (asc ''progreso'')
            \<or> has q (asc ''boleta'') \<or> has q (asc ''notas''),
       Fixed ([55357, 56522] @ asc '' <strong>Entrega de Informes de Progreso Acad'' @ [233]
             @ asc ''mico:</strong><br><br>'' @ [8226]
             @ asc '' <strong>27 de marzo:</strong> Entrega del informe de progreso acad'' @ [233]
             @ asc ''mico en la escuela<br>'' @ [8226]
             @ asc '' <strong>29 de mayo:</strong> Entrega del informe de progreso acad'' @ [233]
             @ asc ''mico en la escuela<br><br>Estos informes muestran el progreso acad'' @ [233]
             @ asc ''mico de los estudiantes. '' @ [191] @ asc ''Tienes alguna pregunta sobre c''
             @ [243] @ asc ''mo acceder a ellos o sobre el sistema de evaluaci'' @ [243]
             @ asc ''n? '' @ [55357, 56842])),
      (\<lambda>q. has q (asc ''semana de la educaci'' @ [243] @ asc ''n'')
            \<or> has q (asc ''semana educativa'')
            \<or> has q (asc ''educaci'' @ [243] @ asc ''n''),
       Fixed ([55356, 57235] @ asc '' <strong>Semana de la Educaci'' @ [243]
             @ asc ''n:</strong><br><br>'' @ [8226]
             @ asc '' <strong>Del 18 al 22 de mayo:</strong> Semana de la Educaci'' @ [243]
             @ asc ''n<br>'' @ [8226] @ asc '' <strong>22 de mayo:</strong> Receso acad'' @ [233]
             @ asc ''mico (docente y no docente)<br><br>Es una semana especial dedicada a actividades educativas y celebraciones. ''
             @ [191] @ asc ''Te gustar'' @ [237] @ asc ''a saber m'' @ [225]
             @ asc ''s sobre las actividades planificadas? '' @ [55357, 56842])),
      (\<lambda>q. has q (asc ''evaluaci'' @ [243] @ asc ''n final'')
            \<or> has q (asc ''evaluaciones finales'') \<or> has q (asc ''examen final'')
            \<or> has q (asc ''finales''),
       Fixed ([55357, 56538] @ asc '' <strong>Evaluaciones Finales 2025-2026:</strong><br><br>''
             @ [8226]
             @ asc '' <strong>26 y 27 de mayo:</strong> Evaluaciones finales<br><br>Las evaluaciones finales son ex''
             @ [225] @ asc ''menes que se realizan al final del a'' @ [241] @ asc ''o acad''
             @ [233] @ asc ''mico para evaluar el aprendizaje. '' @ [191]
             @ asc ''Necesitas informaci'' @ [243] @ asc ''n sobre el contenido o c'' @ [243]
             @ asc ''mo prepararte? '' @ [55357, 56842]))]"

definition rulesMonths :: "rule list" where
  "rulesMonths =
     [(\<lambda>q. has q (asc ''febrero'') \<and> (has q (asc ''qu'' @ [233] @ asc '' hay'')
            \<or> has q (asc ''que hay'') \<or> has q (asc ''evento'')
            \<or> has q (asc ''actividad'')),
       Fixed ([55357, 56517] @ asc '' <strong>Eventos de Febrero 2026:</strong><br><br>''
             @ [8226]
             @ asc '' 13 de febrero: Reuniones profesionales de facultad y equipo (tarde)<br>''
             @ [8226] @ asc '' 16 de febrero: D'' @ [237] @ asc ''a festivo<br>'' @ [8226]
             @ asc '' 19 de febrero: Assessment<br><br>'' @ [191] @ asc ''Necesitas m'' @ [225]
             @ asc ''s informaci'' @ [243] @ asc ''n sobre alguno de estos eventos? ''
             @ [55357, 56842])),
      (\<lambda>q. has q (asc ''marzo'') \<and> (has q (asc ''qu'' @ [233] @ asc '' hay'')
            \<or> has q (asc ''que hay'') \<or> has q (asc ''evento'')
            \<or> has q (asc ''actividad'')),
       Fixed ([55357, 56517] @ asc '' <strong>Eventos de Marzo 2026:</strong><br><br>'' @ [8226]
             @ asc '' 2 de marzo: D'' @ [237] @ asc ''a festivo<br>'' @ [8226]
             @ asc '' 16 de marzo: Assessment<br>'' @ [8226]
             @ asc '' 20 de marzo: Reuniones profesionales (tarde)<br>'' @ [8226]
             @ asc '' 23 de marzo: D'' @ [237] @ asc ''a festivo<br>'' @ [8226]
             @ asc '' 27 de marzo: Entrega del informe de progreso acad'' @ [233]
             @ asc ''mico<br><br>'' @ [191] @ asc ''Necesitas m'' @ [225] @ asc ''s informaci''
             @ [243] @ asc ''n sobre alguno de estos eventos? '' @ [55357, 56842])),
      (\<lambda>q. has q (asc ''abril'') \<and> (has q (asc ''qu'' @ [233] @ asc '' hay'')
            \<or> has q (asc ''que hay'') \<or> has q (asc ''evento'')
            \<or> has q (asc ''actividad'')),
       Fixed ([55357, 56517] @ asc '' <strong>Eventos de Abril 2026:</strong><br><br>'' @ [8226]
             @ asc '' 2 de abril: Receso acad'' @ [233] @ asc ''mico<br>'' @ [8226]
             @ asc '' 3 de abril: Feriado<br>'' @ [8226]
             @ asc '' Del 13 de abril al 7 de mayo: Assessment<br><br>'' @ [191]
             @ asc ''Necesitas m'' @ [225] @ asc ''s informaci'' @ [243]
             @ asc ''n sobre alguno de estos eventos? '' @ [55357, 56842])),
      (\<lambda>q. has q (asc ''mayo'') \<and> (has q (asc ''qu'' @ [233] @ asc '' hay'')
            \<or> has q (asc ''que hay'') \<or> has q (asc ''evento'')
            \<or> has q (asc ''actividad'')),
       Fixed ([55357, 56517] @ asc '' <strong>Eventos de Mayo 2026:</strong><br><br>'' @ [8226]
             @ asc '' Del 13 de abril al 7 de mayo: Assessment (contin'' @ [250] @ asc ''a)<br>''
             @ [8226] @ asc '' Del 18 al 22 de mayo: Semana de la Educaci'' @ [243]
             @ asc ''n<br>'' @ [8226] @ asc '' 22 de mayo: Receso acad'' @ [233]
             @ asc ''mico<br>'' @ [8226] @ asc '' 25 de mayo: Feriado<br>'' @ [8226]
             @ asc '' 26 y 27 de mayo: Evaluaciones finales<br>'' @ [8226]
             @ asc '' 29 de mayo: Entrega del informe de progreso acad'' @ [233]
             @ asc ''mico<br><br>'' @ [191] @ asc ''Necesitas m'' @ [225] @ asc ''s informaci''
             @ [243] @ asc ''n sobre alguno de estos eventos? '' @ [55357, 56842]))]"

definition rules :: "rule list" where
  "rules = rulesSocial @ rulesNavigation @ rulesCapabilities @ rulesSchool @ rulesServices
     @ rulesHelp @ rulesFollowUp @ rulesMisc @ rulesCalendar @ rulesMonths"

definition fallbackText :: jsstring where
  "fallbackText =
     asc ''Lo siento to tengo una contestacion a eso, todavia soy una ia en desarrollo.''"

definition answer :: "reply \<Rightarrow> world \<Rightarrow> jsstring \<times> world" where
  "answer r w = (case r of Fixed t \<Rightarrow> (t, w) | Pool ts \<Rightarrow> pick ts w)"

text \<open>The source from the greeting to its last line.\<close>

definition cascade :: "jsstring \<Rightarrow> world \<Rightarrow> jsstring \<times> world" where
  "cascade lowerQ w =
     (if isGreeting lowerQ then greet w
      else case find (\<lambda>r. fst r lowerQ) rules of
             None \<Rightarrow> (fallbackText, w)
           | Some r \<Rightarrow> answer (snd r) w)"

subsection \<open>The whole answer\<close>

definition getAIResponse :: "jsstring \<Rightarrow> world \<Rightarrow> jsstring \<times> world" where
  "getAIResponse query w =
     (let lowerQ = toLowerCase query
      in case rx_exec dateRx lowerQ of
           Some dateMatch \<Rightarrow> (dateAnswer (group lowerQ dateMatch 1) (group lowerQ dateMatch 2), w)
         | None \<Rightarrow>
             (case rx_exec monthOnlyRx lowerQ of
                Some monthOnlyMatch \<Rightarrow>
                  let monthName = group lowerQ monthOnlyMatch 1
                  in if monthQueryApplies query lowerQ monthName
                     then (monthAnswer monthName, w)
                     else cascade lowerQ w
              | None \<Rightarrow> cascade lowerQ w))"


subsection \<open>Notions used by the properties\<close>

text \<open>
  The three assignments of \<open>resolveTicket\<close>, on a ticket and with the instant that the
  third one reads from the clock.
\<close>

definition resolved :: "jsval \<Rightarrow> jsstring \<Rightarrow> jsobj \<Rightarrow> jsobj" where
  "resolved techName now ticket =
     setProp (asc ''resolvedDate'') (JStr now)
       (setProp (asc ''resolvedBy'') techName
          (setProp (asc ''status'') (JStr (asc ''resuelto'')) ticket))"

text \<open>
  The instants whose ISO string has a year of four digits and fields of the usual ranges:
  every instant of the years 0 to 9999.
\<close>

definition validInstant :: "datetime \<Rightarrow> bool" where
  "validInstant d =
     (utcFullYear d \<le> 9999 \<and> 1 \<le> utcMonth d \<and> utcMonth d \<le> 12 \<and> 1 \<le> utcDate d \<and> utcDate d \<le> 31
        \<and> utcHours d < 24 \<and> utcMinutes d < 60 \<and> utcSeconds d < 60 \<and> utcMilliseconds d < 1000)"

text \<open>
  The pattern of an identifier, in the words of the specification: the prefix, a dash, six
  digits, a dash, three digits.
\<close>

definition matchesIdPattern :: "jsstring \<Rightarrow> jsstring \<Rightarrow> bool" where
  "matchesIdPattern pfx s =
     (let rest = drop (length pfx) s
      in take (length pfx) s = pfx \<and> length rest = 11 \<and> take 1 rest = asc ''-''
           \<and> list_all isDigit (take 6 (drop 1 rest)) \<and> take 1 (drop 7 rest) = asc ''-''
           \<and> list_all isDigit (drop 8 rest))"










text \<open>
  Rule 1 answers when the date pattern matches the text in lower case; rule 2 answers when
  the month pattern matches and the condition of the month query holds.
\<close>

definition dateRule :: "jsstring \<Rightarrow> bool" where
  "dateRule lowerQ = rx_test dateRx lowerQ"

definition monthRule :: "jsstring \<Rightarrow> jsstring \<Rightarrow> bool" where
  "monthRule query lowerQ =
     (case rx_exec monthOnlyRx lowerQ of
        None \<Rightarrow> False
      | Some monthOnlyMatch \<Rightarrow> monthQueryApplies query lowerQ (group lowerQ monthOnlyMatch 1))"


subsection \<open>Sessions\<close>

text \<open>
  The methods of \<open>ServiceManager\<close> as the steps of a session. \<open>ReadOnly\<close> stands for the
  methods that assign neither to the document nor to the storage and read neither the
  clock nor the random source (\<open>loadData\<close>, \<open>getRequestById\<close>, \<open>getRequests\<close>,
  \<open>getNurseStats\<close>, \<open>searchBooks\<close>, \<open>getLatestNews\<close>, \<open>getAllNews\<close>, \<open>showNewsPopup\<close>);
  \<open>Reload\<close> is the page loaded again: a new \<open>ServiceManager\<close> on the same storage.
  \<open>perform\<close> gives the text that the step returned when the step is the assistant.
\<close>

datatype op =
    SaveData
  | GenerateId jsstring
  | CreateDocumentRequest jsobj
  | UpdateRequestStatus jsstring jsstring jsstring
  | CreateEnrollment jsobj
  | RegisterNurseVisit jsobj
  | CreateCounselingAppointment jsobj
  | CreateEarlyAlert jsobj
  | CreateTicket jsobj
  | LogWBLHours jsobj
  | ReserveBook jsobj
  | SendParentMessage jsobj
  | RegisterVisitor jsobj
  | CheckoutVisitor jsval
  | ReportIncident jsobj
  | GetAIResponse jsstring
  | AddNews jsobj
  | DeleteNews jsval
  | SimulateNotification logged jsstring
  | AddTicket jsobj
  | GetAllTickets
  | UpdateTicket jsobj
  | ResolveTicket jsval jsval
  | SaveTechScore jsstring jsval
  | GetTechScore jsstring
  | ReadOnly
  | Reload

fun perform :: "op \<Rightarrow> world \<Rightarrow> jsstring option \<times> world" where
  "perform SaveData w = (None, saveData w)"
| "perform (GenerateId pfx) w = (None, snd (generateId pfx w))"
| "perform (CreateDocumentRequest p) w = (None, snd (createDocumentRequest p w))"
| "perform (UpdateRequestStatus rid st c) w = (None, snd (updateRequestStatus rid st c w))"
| "perform (CreateEnrollment p) w = (None, snd (createEnrollment p w))"
| "perform (RegisterNurseVisit p) w = (None, snd (registerNurseVisit p w))"
| "perform (CreateCounselingAppointment p) w = (None, snd (createCounselingAppointment p w))"
| "perform (CreateEarlyAlert p) w = (None, snd (createEarlyAlert p w))"
| "perform (CreateTicket p) w = (None, snd (createTicket p w))"
| "perform (LogWBLHours p) w = (None, snd (logWBLHours p w))"
| "perform (ReserveBook p) w = (None, snd (reserveBook p w))"
| "perform (SendParentMessage p) w = (None, snd (sendParentMessage p w))"
| "perform (RegisterVisitor p) w = (None, snd (registerVisitor p w))"
| "perform (CheckoutVisitor v) w = (None, snd (checkoutVisitor v w))"
| "perform (ReportIncident p) w = (None, snd (reportIncident p w))"
| "perform (GetAIResponse q) w = (Some (fst (getAIResponse q w)), snd (getAIResponse q w))"
| "perform (AddNews p) w = (None, snd (addNews p w))"
| "perform (DeleteNews v) w = (None, snd (deleteNews v w))"
| "perform (SimulateNotification r e) w = (None, simulateNotification r e w)"
| "perform (AddTicket t) w = (None, snd (addTicket t w))"
| "perform GetAllTickets w = (None, snd (getAllTickets w))"
| "perform (UpdateTicket t) w = (None, snd (updateTicket t w))"
| "perform (ResolveTicket v t) w = (None, snd (resolveTicket v t w))"
| "perform (SaveTechScore n v) w = (None, saveTechScore n v w)"
| "perform (GetTechScore n) w = (None, snd (getTechScore n w))"
| "perform ReadOnly w = (None, w)"
| "perform Reload w = (None, newServiceManager w)"

text \<open>The texts that the assistant returns in the course of a session, in order.\<close>

fun answers :: "op list \<Rightarrow> world \<Rightarrow> jsstring list" where
  "answers [] w = []"
| "answers (x # xs) w =
     (case fst (perform x w) of
        None \<Rightarrow> answers xs (snd (perform x w))
      | Some t \<Rightarrow> t # answers xs (snd (perform x w)))"

text \<open>The state in which the sequence of steps leaves the session.\<close>

fun after :: "op list \<Rightarrow> world \<Rightarrow> world" where
  "after [] w = w"
| "after (x # xs) w = after xs (snd (perform x w))"

text \<open>
  The first greeting is behind: the flag is not true in the document, and the storage holds
  a document in which it is not true.
\<close>

definition greeted :: "world \<Rightarrow> bool" where
  "greeted w =
     (firstGreeting (data w) \<noteq> Some True \<and>
      (case storage w of None \<Rightarrow> False | Some saved \<Rightarrow> firstGreeting saved \<noteq> Some True))"


section \<open>States used as examples\<close>

text \<open>
  A session that starts on an empty storage at 2026-11-03T09:05:07.042Z, with a clock that
  stands still and a random source that always gives 7; and a session whose document
  holds one document request, two news items and one support ticket.
\<close>

definition exampleInstant :: datetime where
  "exampleInstant =
     \<lparr>utcFullYear = 2026, utcMonth = 11, utcDate = 3, utcHours = 9, utcMinutes = 5,
      utcSeconds = 7, utcMilliseconds = 42\<rparr>"

definition emptyWorld :: world where
  "emptyWorld =
     newServiceManager
       \<lparr>data = freshDocument, storage = None, console = [], clock = sconst exampleInstant,
        rng = sconst 7\<rparr>"

definition exampleRequest :: docrequest where
  "exampleRequest =
     \<lparr>req_id = asc ''DOC-261103-007'', req_type = JStr (asc ''certificacion''),
      studentName = JStr (asc ''Ana''), studentId = JStr (asc ''A-1''), grade = JNum 11,
      email = JUndefined, phone = JUndefined, details = JUndefined,
      status = asc ''pendiente'', requestDate = asc ''2026-11-03T09:05:07.042Z'',
      lastUpdate = asc ''2026-11-03T09:05:07.042Z'', comments = []\<rparr>"

definition exampleNews :: "jsobj list" where
  "exampleNews =
     [[(asc ''id'', JStr (asc ''NEWS-261103-001'')), (asc ''title'', JStr (asc ''Feria''))],
      [(asc ''id'', JStr (asc ''NEWS-261103-002'')), (asc ''title'', JStr (asc ''Torneo''))]]"

definition exampleTicket :: jsobj where
  "exampleTicket =
     [(asc ''id'', JStr (asc ''TICK-261103-005'')), (asc ''status'', JStr (asc ''abierto'')),
      (asc ''assignedTo'', JNull), (asc ''dateCreated'', JStr (asc ''2026-11-03T09:05:07.042Z'')),
      (asc ''logs'', JArr [])]"

definition exampleDocument :: document where
  "exampleDocument =
     freshDocument\<lparr>solicitudes_documentos := Some [exampleRequest], news := Some exampleNews,
       tickets_soporte := Some [exampleTicket]\<rparr>"

definition exampleWorld :: world where
  "exampleWorld =
     newServiceManager
       \<lparr>data = freshDocument, storage = Some exampleDocument, console = [],
        clock = sconst exampleInstant, rng = sconst 7\<rparr>"




section \<open>Properties\<close>

subsection \<open>Finding and replacing a record\<close>

lemma find_split:
  "find P xs = Some x \<Longrightarrow> \<exists>pre post. xs = pre @ x # post \<and> (\<forall>y\<in>set pre. \<not> P y) \<and> P x"
proof (induction xs)
  case Nil
  then show ?case by simp
next
  case (Cons a xs)
  show ?case
  proof (cases "P a")
    case True
    with Cons.prems have "a = x" by simp
    with True have "a # xs = [] @ x # xs \<and> (\<forall>y\<in>set []. \<not> P y) \<and> P x" by simp
    then show ?thesis by blast
  next
    case False
    with Cons.prems have "find P xs = Some x" by simp
    then obtain pre post where "xs = pre @ x # post" "\<forall>y\<in>set pre. \<not> P y" "P x"
      using Cons.IH by blast
    with False have "a # xs = (a # pre) @ x # post \<and> (\<forall>y\<in>set (a # pre). \<not> P y) \<and> P x"
      by simp
    then show ?thesis by blast
  qed
qed

lemma find_present: "\<exists>x\<in>set xs. P x \<Longrightarrow> \<exists>x. find P xs = Some x"
  by (induction xs) auto

lemma find_absent: "\<forall>x\<in>set xs. \<not> P x \<Longrightarrow> find P xs = None"
  by (induction xs) auto

lemma replaceFirst_split:
  "\<forall>y\<in>set pre. \<not> P y \<Longrightarrow> P x \<Longrightarrow> replaceFirst P z (pre @ x # post) = pre @ z # post"
  by (induction pre) auto

lemma find_replaced:
  "\<forall>y\<in>set pre. \<not> P y \<Longrightarrow> P z \<Longrightarrow> find P (pre @ z # post) = Some z"
  by (induction pre) auto

lemma exampleWorld_data: "data exampleWorld = exampleDocument"
  by (simp add: exampleWorld_def newServiceManager_def loadData_def)

subsection \<open>Deleting news\<close>

text \<open>
  Claim C10. When the document has a news collection, \<open>deleteNews\<close> returns true whether
  or not an item has the identifier; the collection becomes the items whose identifier
  is not the argument, in their order; the rest of the document is as it was, and the
  document is saved. It returns false, and changes nothing, only when the document has
  no news collection.
\<close>

theorem deleteNews_spec:
  "(news (data w) = None \<longrightarrow> deleteNews nid w = (False, w)) \<and>
   (\<forall>ns. news (data w) = Some ns \<longrightarrow>
      fst (deleteNews nid w) = True \<and>
      data (snd (deleteNews nid w)) =
        (data w)\<lparr>news := Some (filter (\<lambda>n. \<not> strictEq (getProp n (asc ''id'')) nid) ns)\<rparr> \<and>
      storage (snd (deleteNews nid w)) = Some (data (snd (deleteNews nid w))))"
  by (simp add: deleteNews_def saveData_def)


lemma exampleWorld_news: "news (data exampleWorld) = Some exampleNews"
  by (simp add: exampleWorld_data exampleDocument_def)

lemma emptyWorld_data: "data emptyWorld = freshDocument"
  by (simp add: emptyWorld_def newServiceManager_def loadData_def)

theorem deleteNews_spec_witness:
  "news (data exampleWorld) = Some exampleNews \<and>
   fst (deleteNews (JStr (asc ''NEWS-261103-001'')) exampleWorld) = True \<and>
   fst (deleteNews (JStr (asc ''NEWS-000000-000'')) exampleWorld) = True \<and>
   news (data (snd (deleteNews (JStr (asc ''NEWS-261103-001'')) exampleWorld))) =
     Some [[(asc ''id'', JStr (asc ''NEWS-261103-002'')), (asc ''title'', JStr (asc ''Torneo''))]] \<and>
   news (data (emptyWorld\<lparr>data := (data emptyWorld)\<lparr>news := None\<rparr>\<rparr>)) = None \<and>
   fst (deleteNews (JStr (asc ''NEWS-261103-001''))
          (emptyWorld\<lparr>data := (data emptyWorld)\<lparr>news := None\<rparr>\<rparr>)) = False"
proof -
  have f: "filter (\<lambda>n. \<not> strictEq (getProp n (asc ''id'')) (JStr (asc ''NEWS-261103-001'')))
             exampleNews
            = [[(asc ''id'', JStr (asc ''NEWS-261103-002'')), (asc ''title'', JStr (asc ''Torneo''))]]"
    by code_simp
  show ?thesis
    using deleteNews_spec [of exampleWorld "JStr (asc ''NEWS-261103-001'')"]
      deleteNews_spec [of exampleWorld "JStr (asc ''NEWS-000000-000'')"]
      deleteNews_spec [of "emptyWorld\<lparr>data := (data emptyWorld)\<lparr>news := None\<rparr>\<rparr>"
        "JStr (asc ''NEWS-261103-001'')"]
      exampleWorld_news f
    by simp
qed

subsection \<open>Updating the status of a document request\<close>

text \<open>
  Claim C6. On a document with a document-request collection: when no request has the
  identifier, \<open>updateRequestStatus\<close> returns false and the state of the session is the
  one before the call (nothing is changed, saved or written to the console, and the clock
  is not read). When a request has it, the first such request gets the new status and a
  new \<open>lastUpdate\<close>, and one more comment \<open>{text, date, author}\<close> exactly when the
  comment is not empty; every other record and collection is as before; the document is
  saved, one line is written to the console, and the result is true.
\<close>

theorem updateRequestStatus_spec:
  assumes "solicitudes_documentos (data w) = Some reqs"
  shows "((\<forall>r\<in>set reqs. req_id r \<noteq> rid) \<longrightarrow>
            updateRequestStatus rid newStatus adminComment w = (Inr False, w)) \<and>
         ((\<exists>r\<in>set reqs. req_id r = rid) \<longrightarrow>
            (\<exists>pre request post request' doc'.
               reqs = pre @ request # post \<and> (\<forall>r\<in>set pre. req_id r \<noteq> rid) \<and> req_id request = rid \<and>
               request' = request
                 \<lparr>status := newStatus,
                  lastUpdate := toISOString (shd (clock w)),
                  comments := comments request @
                    (if adminComment = [] then []
                     else [\<lparr>c_text = adminComment, c_date = toISOString (shd (stl (clock w))),
                            c_author = asc ''Administrador''\<rparr>])\<rparr> \<and>
               doc' = (data w)\<lparr>solicitudes_documentos := Some (pre @ request' # post)\<rparr> \<and>
               updateRequestStatus rid newStatus adminComment w =
                 (Inr True,
                  w\<lparr>data := doc', storage := Some doc',
                    console := console w @ [(asc ''updated'', LoggedRequest request')],
                    clock := (if adminComment = [] then stl (clock w) else stl (stl (clock w)))\<rparr>)))"
proof (intro conjI impI)
  assume "\<forall>r\<in>set reqs. req_id r \<noteq> rid"
  then have "find (\<lambda>req. req_id req = rid) reqs = None" by (rule find_absent)
  with assms show "updateRequestStatus rid newStatus adminComment w = (Inr False, w)"
    by (simp add: updateRequestStatus_def)
next
  assume "\<exists>r\<in>set reqs. req_id r = rid"
  then obtain request where f: "find (\<lambda>req. req_id req = rid) reqs = Some request"
    using find_present [of reqs "\<lambda>req. req_id req = rid"] by blast
  then obtain pre post where s: "reqs = pre @ request # post" "\<forall>r\<in>set pre. req_id r \<noteq> rid"
      "req_id request = rid"
    using find_split [OF f] by blast
  have r: "replaceFirst (\<lambda>req. req_id req = rid) z reqs = pre @ z # post" for z
    using s by (simp add: replaceFirst_split)
  let ?request' = "request
                 \<lparr>status := newStatus,
                  lastUpdate := toISOString (shd (clock w)),
                  comments := comments request @
                    (if adminComment = [] then []
                     else [\<lparr>c_text = adminComment, c_date = toISOString (shd (stl (clock w))),
                            c_author = asc ''Administrador''\<rparr>])\<rparr>"
  let ?doc' = "(data w)\<lparr>solicitudes_documentos := Some (pre @ ?request' # post)\<rparr>"
  have "updateRequestStatus rid newStatus adminComment w =
          (Inr True,
           w\<lparr>data := ?doc', storage := Some ?doc',
             console := console w @ [(asc ''updated'', LoggedRequest ?request')],
             clock := (if adminComment = [] then stl (clock w) else stl (stl (clock w)))\<rparr>)"
    using assms f r
    by (simp add: updateRequestStatus_def nowISO_def saveData_def simulateNotification_def Let_def)
  with s show "\<exists>pre request post request' doc'.
               reqs = pre @ request # post \<and> (\<forall>r\<in>set pre. req_id r \<noteq> rid) \<and> req_id request = rid \<and>
               request' = request
                 \<lparr>status := newStatus,
                  lastUpdate := toISOString (shd (clock w)),
                  comments := comments request @
                    (if adminComment = [] then []
                     else [\<lparr>c_text = adminComment, c_date = toISOString (shd (stl (clock w))),
                            c_author = asc ''Administrador''\<rparr>])\<rparr> \<and>
               doc' = (data w)\<lparr>solicitudes_documentos := Some (pre @ request' # post)\<rparr> \<and>
               updateRequestStatus rid newStatus adminComment w =
                 (Inr True,
                  w\<lparr>data := doc', storage := Some doc',
                    console := console w @ [(asc ''updated'', LoggedRequest request')],
                    clock := (if adminComment = [] then stl (clock w) else stl (stl (clock w)))\<rparr>)"
    by blast
qed

lemma exampleWorld_requests: "solicitudes_documentos (data exampleWorld) = Some [exampleRequest]"
  by (simp add: exampleWorld_data exampleDocument_def)

lemma exampleInstant_iso: "toISOString exampleInstant = asc ''2026-11-03T09:05:07.042Z''"
  by code_simp

theorem updateRequestStatus_spec_witness:
  "solicitudes_documentos (data exampleWorld) = Some [exampleRequest] \<and>
   updateRequestStatus (asc ''DOC-000000-000'') (asc ''completado'') (asc ''Listo'') exampleWorld
     = (Inr False, exampleWorld) \<and>
   fst (updateRequestStatus (asc ''DOC-261103-007'') (asc ''completado'') (asc ''Listo'') exampleWorld)
     = Inr True \<and>
   solicitudes_documentos (data (snd
       (updateRequestStatus (asc ''DOC-261103-007'') (asc ''completado'') (asc ''Listo'') exampleWorld)))
     = Some [exampleRequest
              \<lparr>status := asc ''completado'', lastUpdate := asc ''2026-11-03T09:05:07.042Z'',
               comments := [\<lparr>c_text = asc ''Listo'', c_date = asc ''2026-11-03T09:05:07.042Z'',
                              c_author = asc ''Administrador''\<rparr>]\<rparr>]"
proof -
  have absent: "\<forall>r\<in>set [exampleRequest]. req_id r \<noteq> asc ''DOC-000000-000''"
    by (simp add: exampleRequest_def asc_def)
  have present: "\<exists>r\<in>set [exampleRequest]. req_id r = asc ''DOC-261103-007''"
    by (simp add: exampleRequest_def)
  have nonempty: "asc ''Listo'' \<noteq> []"
    by (simp add: asc_def)
  have clock: "shd (clock exampleWorld) = exampleInstant"
    "shd (stl (clock exampleWorld)) = exampleInstant"
    by (simp_all add: exampleWorld_def newServiceManager_def)
  have none: "comments exampleRequest = []"
    by (simp add: exampleRequest_def)
  from updateRequestStatus_spec [OF exampleWorld_requests, of "asc ''DOC-000000-000''"
      "asc ''completado''" "asc ''Listo''"] absent
  have a: "updateRequestStatus (asc ''DOC-000000-000'') (asc ''completado'') (asc ''Listo'')
             exampleWorld = (Inr False, exampleWorld)"
    by blast
  from updateRequestStatus_spec [OF exampleWorld_requests, of "asc ''DOC-261103-007''"
      "asc ''completado''" "asc ''Listo''"] present
  obtain pre request post request' doc' where
    p: "[exampleRequest] = pre @ request # post"
       "request' = request
          \<lparr>status := asc ''completado'',
           lastUpdate := toISOString (shd (clock exampleWorld)),
           comments := comments request @
             (if asc ''Listo'' = [] then []
              else [\<lparr>c_text = asc ''Listo'',
                     c_date = toISOString (shd (stl (clock exampleWorld))),
                     c_author = asc ''Administrador''\<rparr>])\<rparr>"
       "doc' = (data exampleWorld)\<lparr>solicitudes_documentos := Some (pre @ request' # post)\<rparr>"
       "updateRequestStatus (asc ''DOC-261103-007'') (asc ''completado'') (asc ''Listo'')
          exampleWorld =
        (Inr True,
         exampleWorld\<lparr>data := doc', storage := Some doc',
           console := console exampleWorld @ [(asc ''updated'', LoggedRequest request')],
           clock := (if asc ''Listo'' = [] then stl (clock exampleWorld)
                     else stl (stl (clock exampleWorld)))\<rparr>)"
    by blast
  from p(1) have q: "pre = []" "request = exampleRequest" "post = []"
    by (simp_all add: Cons_eq_append_conv)
  show ?thesis
    using a p(2) p(3) p(4) q nonempty clock none exampleWorld_requests
    by (simp add: exampleInstant_iso)
qed

subsection \<open>Resolving a ticket twice\<close>

lemma getProp_setProp:
  "getProp (setProp k v obj) k' = (if k' = k then v else getProp obj k')"
  by (simp add: getProp_def setProp_def update_conv')

lemma resolved_props:
  "getProp (resolved techName now ticket) (asc ''id'') = getProp ticket (asc ''id'')"
  "getProp (resolved techName now ticket) (asc ''status'') = JStr (asc ''resuelto'')"
  "getProp (resolved techName now ticket) (asc ''resolvedBy'') = techName"
  "getProp (resolved techName now ticket) (asc ''resolvedDate'') = JStr now"
  by (simp_all add: resolved_def getProp_setProp asc_def)

lemma resolveTicket_found:
  assumes "tickets_soporte (data w) = Some (pre @ ticket # post)"
    and "\<forall>t\<in>set pre. \<not> strictEq (getProp t (asc ''id'')) ticketId"
    and "strictEq (getProp ticket (asc ''id'')) ticketId"
  shows "resolveTicket ticketId techName w =
           (Inr (Some (resolved techName (toISOString (shd (clock w))) ticket)),
            w\<lparr>clock := stl (clock w),
              data := (data w)\<lparr>tickets_soporte :=
                Some (pre @ resolved techName (toISOString (shd (clock w))) ticket # post)\<rparr>,
              storage := Some ((data w)\<lparr>tickets_soporte :=
                Some (pre @ resolved techName (toISOString (shd (clock w))) ticket # post)\<rparr>)\<rparr>)"
  using assms
  by (simp add: resolveTicket_def find_replaced replaceFirst_split nowISO_def saveData_def
      resolved_def Let_def)

text \<open>
  Claim C5. When a ticket of the collection has the identifier, a second \<open>resolveTicket\<close>
  is not rejected: like the first call it returns the ticket, not \<open>undefined\<close>; the
  ticket it returns is the one the first call returned with the three fields written
  again, so the status is \<open>resuelto\<close> after both calls, and \<open>resolvedBy\<close> and
  \<open>resolvedDate\<close> are the technician and the instant of the second call. The ticket stays
  the first one of the collection with that identifier, and the document is saved.
\<close>

theorem resolveTicket_twice:
  assumes "tickets_soporte (data w) = Some ts"
    and "\<exists>t\<in>set ts. strictEq (getProp t (asc ''id'')) ticketId"
  shows "\<exists>t1 w1 t2 w2.
           resolveTicket ticketId tech1 w = (Inr (Some t1), w1) \<and>
           resolveTicket ticketId tech2 w1 = (Inr (Some t2), w2) \<and>
           getProp t1 (asc ''status'') = JStr (asc ''resuelto'') \<and>
           getProp t1 (asc ''resolvedBy'') = tech1 \<and>
           getProp t1 (asc ''resolvedDate'') = JStr (toISOString (shd (clock w))) \<and>
           t2 = setProp (asc ''resolvedDate'') (JStr (toISOString (shd (stl (clock w)))))
                  (setProp (asc ''resolvedBy'') tech2
                     (setProp (asc ''status'') (JStr (asc ''resuelto'')) t1)) \<and>
           getProp t2 (asc ''status'') = JStr (asc ''resuelto'') \<and>
           getProp t2 (asc ''resolvedBy'') = tech2 \<and>
           getProp t2 (asc ''resolvedDate'') = JStr (toISOString (shd (stl (clock w)))) \<and>
           (\<exists>pre post. tickets_soporte (data w2) = Some (pre @ t2 # post) \<and>
              (\<forall>t\<in>set pre. \<not> strictEq (getProp t (asc ''id'')) ticketId)) \<and>
           storage w2 = Some (data w2)"
proof -
  let ?P = "\<lambda>t. strictEq (getProp t (asc ''id'')) ticketId"
  obtain ticket where "find ?P ts = Some ticket"
    using find_present [of ts ?P] assms(2) by blast
  then obtain pre post where s: "ts = pre @ ticket # post" "\<forall>t\<in>set pre. \<not> ?P t" "?P ticket"
    using find_split [of ?P ts ticket] by blast
  let ?t1 = "resolved tech1 (toISOString (shd (clock w))) ticket"
  let ?w1 = "w\<lparr>clock := stl (clock w),
              data := (data w)\<lparr>tickets_soporte := Some (pre @ ?t1 # post)\<rparr>,
              storage := Some ((data w)\<lparr>tickets_soporte := Some (pre @ ?t1 # post)\<rparr>)\<rparr>"
  have first: "resolveTicket ticketId tech1 w = (Inr (Some ?t1), ?w1)"
    using assms(1) s by (simp add: resolveTicket_found)
  have again: "?P ?t1"
    using s(3) by (simp add: resolved_props)
  let ?t2 = "resolved tech2 (toISOString (shd (stl (clock w)))) ?t1"
  let ?w2 = "?w1\<lparr>clock := stl (clock ?w1),
              data := (data ?w1)\<lparr>tickets_soporte := Some (pre @ ?t2 # post)\<rparr>,
              storage := Some ((data ?w1)\<lparr>tickets_soporte := Some (pre @ ?t2 # post)\<rparr>)\<rparr>"
  have second: "resolveTicket ticketId tech2 ?w1 = (Inr (Some ?t2), ?w2)"
    using resolveTicket_found [of ?w1 pre ?t1 post ticketId tech2] s(2) again by simp
  have stored: "tickets_soporte (data ?w2) = Some (pre @ ?t2 # post)" "storage ?w2 = Some (data ?w2)"
    by simp_all
  have shape: "?t2 = setProp (asc ''resolvedDate'') (JStr (toISOString (shd (stl (clock w)))))
                  (setProp (asc ''resolvedBy'') tech2
                     (setProp (asc ''status'') (JStr (asc ''resuelto'')) ?t1))"
    by (simp add: resolved_def)
  show ?thesis
    using first second stored s(2) shape by (metis resolved_props(2,3,4))
qed

lemma exampleWorld_tickets: "tickets_soporte (data exampleWorld) = Some [exampleTicket]"
  by (simp add: exampleWorld_data exampleDocument_def)

lemma exampleWorld_clock: "clock exampleWorld = sconst exampleInstant"
  by (simp add: exampleWorld_def newServiceManager_def)

theorem resolveTicket_twice_witness:
  "tickets_soporte (data exampleWorld) = Some [exampleTicket] \<and>
   (\<exists>t2. fst (resolveTicket (JStr (asc ''TICK-261103-005'')) (JStr (asc ''Luis''))
             (snd (resolveTicket (JStr (asc ''TICK-261103-005'')) (JStr (asc ''Eva'')) exampleWorld)))
           = Inr (Some t2) \<and>
         getProp t2 (asc ''status'') = JStr (asc ''resuelto'') \<and>
         getProp t2 (asc ''resolvedBy'') = JStr (asc ''Luis'') \<and>
         getProp t2 (asc ''resolvedDate'') = JStr (asc ''2026-11-03T09:05:07.042Z''))"
proof -
  have present: "\<exists>t\<in>set [exampleTicket].
      strictEq (getProp t (asc ''id'')) (JStr (asc ''TICK-261103-005''))"
    by (simp add: exampleTicket_def getProp_def)
  from resolveTicket_twice [OF exampleWorld_tickets present, of "JStr (asc ''Eva'')"
      "JStr (asc ''Luis'')"]
  obtain t1 w1 t2 w2 where
    r: "resolveTicket (JStr (asc ''TICK-261103-005'')) (JStr (asc ''Eva'')) exampleWorld
          = (Inr (Some t1), w1)"
       "resolveTicket (JStr (asc ''TICK-261103-005'')) (JStr (asc ''Luis'')) w1 = (Inr (Some t2), w2)"
       "getProp t2 (asc ''status'') = JStr (asc ''resuelto'')"
       "getProp t2 (asc ''resolvedBy'') = JStr (asc ''Luis'')"
       "getProp t2 (asc ''resolvedDate'') = JStr (toISOString (shd (stl (clock exampleWorld))))"
    by blast
  have "toISOString (shd (stl (clock exampleWorld))) = asc ''2026-11-03T09:05:07.042Z''"
    by (simp add: exampleWorld_clock exampleInstant_iso)
  with r exampleWorld_tickets show ?thesis by simp
qed

subsection \<open>Identifiers\<close>

lemma replicate_small:
  "replicate 1 x = [x]" "replicate 2 x = [x, x]" "replicate 3 x = [x, x, x]"
  by (simp_all add: numeral_2_eq_2 numeral_3_eq_3)

lemma decimal_1: "n < 10 \<Longrightarrow> decimal n = [48 + n]"
  by (simp add: decimal.simps)

lemma decimal_step: "10 \<le> n \<Longrightarrow> decimal n = decimal (n div 10) @ [48 + n mod 10]"
  by (subst decimal.simps) simp

lemma decimal_2: "10 \<le> n \<Longrightarrow> n < 100 \<Longrightarrow> decimal n = [48 + n div 10, 48 + n mod 10]"
  by (simp add: decimal_step decimal_1)

lemma div_tens: "n div 10 div 10 = n div 100" "n div 10 div 100 = n div (1000::nat)"
  by (simp_all flip: div_mult2_eq)

lemma decimal_3:
  "100 \<le> n \<Longrightarrow> n < 1000 \<Longrightarrow> decimal n = [48 + n div 100, 48 + n div 10 mod 10, 48 + n mod 10]"
  by (simp add: decimal_step [of n] decimal_2 div_tens)

lemma decimal_4:
  "1000 \<le> n \<Longrightarrow> n < 10000 \<Longrightarrow>
     decimal n = [48 + n div 1000, 48 + n div 100 mod 10, 48 + n div 10 mod 10, 48 + n mod 10]"
  by (simp add: decimal_step [of n] decimal_3 div_tens)

lemma pad2: "n \<le> 99 \<Longrightarrow> pad 2 n = [48 + n div 10, 48 + n mod 10]"
  by (cases "n < 10") (simp_all add: pad_def padStart_def decimal_1 decimal_2 replicate_small)

lemma pad3: "n \<le> 999 \<Longrightarrow> pad 3 n = [48 + n div 100, 48 + n div 10 mod 10, 48 + n mod 10]"
  by (cases "n < 10"; cases "n < 100")
     (simp_all add: pad_def padStart_def decimal_1 decimal_2 decimal_3 replicate_small)

lemma pad4:
  "n \<le> 9999 \<Longrightarrow>
     pad 4 n = [48 + n div 1000, 48 + n div 100 mod 10, 48 + n div 10 mod 10, 48 + n mod 10]"
  by (cases "n < 10"; cases "n < 100"; cases "n < 1000")
     (simp_all add: pad_def padStart_def decimal_1 decimal_2 decimal_3 decimal_4 replicate_small)

lemma generateId_valid:
  assumes "validInstant (shd (clock w))"
  shows "generateId pfx w =
           (pfx @ [45,
              48 + utcFullYear (shd (clock w)) div 10 mod 10, 48 + utcFullYear (shd (clock w)) mod 10,
              48 + utcMonth (shd (clock w)) div 10, 48 + utcMonth (shd (clock w)) mod 10,
              48 + utcDate (shd (clock w)) div 10, 48 + utcDate (shd (clock w)) mod 10,
              45,
              48 + (shd (rng w) mod 1000) div 100, 48 + (shd (rng w) mod 1000) div 10 mod 10,
              48 + (shd (rng w) mod 1000) mod 10],
            w\<lparr>clock := stl (clock w), rng := stl (rng w)\<rparr>)"
proof -
  have r: "shd (rng w) mod 1000 \<le> 999"
    using mod_less_divisor [of 1000 "shd (rng w)"] by linarith
  have p3: "padStart 3 48 (decimal (shd (rng w) mod 1000)) = pad 3 (shd (rng w) mod 1000)"
    by (simp add: pad_def)
  show ?thesis
    using assms r
    by (simp add: generateId_def nowISO_def randomBelow_def toISOString_def validInstant_def
        pad2 pad3 pad4 p3 asc_def Let_def)
qed


lemma map_of_setProp: "map_of (setProp k v obj) = (map_of obj)(k \<mapsto> v)"
  by (simp add: setProp_def update_conv')

lemma map_of_objLit_aux:
  "map_of (foldl (\<lambda>obj kv. setProp (fst kv) (snd kv) obj) acc fs) k =
     (case map_of (rev fs) k of Some v \<Rightarrow> Some v | None \<Rightarrow> map_of acc k)"
proof (induction fs arbitrary: acc)
  case Nil
  then show ?case by simp
next
  case (Cons f fs)
  show ?case
    by (simp add: Cons.IH map_of_setProp map_add_def split: option.splits)
qed

lemma getProp_objLit_first:
  "k \<notin> fst ` set fs \<Longrightarrow> getProp (objLit ((k, v) # fs)) k = v"
proof -
  assume "k \<notin> fst ` set fs"
  then have "map_of (rev fs) k = None"
    by (simp add: map_of_eq_None_iff)
  then show ?thesis
    by (simp add: getProp_def objLit_def map_of_objLit_aux map_of_setProp)
qed

lemma reads_keep_data:
  "data (snd (nowISO w)) = data w" "data (snd (randomBelow n w)) = data w"
  "data (snd (generateId pfx w)) = data w"
  by (simp_all add: nowISO_def randomBelow_def generateId_def split_beta Let_def)

lemma id_keys:
  "asc ''id'' \<noteq> asc ''status''" "asc ''id'' \<noteq> asc ''requestDate''" "asc ''id'' \<noteq> asc ''date''"
  "asc ''id'' \<noteq> asc ''dateCreated''" "asc ''id'' \<noteq> asc ''priority''" "asc ''id'' \<noteq> asc ''assignedTo''"
  "asc ''id'' \<noteq> asc ''logs''" "asc ''id'' \<noteq> asc ''dateReserved''" "asc ''id'' \<noteq> asc ''dateSent''"
  "asc ''id'' \<noteq> asc ''checkIn''" "asc ''id'' \<noteq> asc ''checkOut''" "asc ''id'' \<noteq> asc ''dateReported''"
  "asc ''id'' \<noteq> asc ''active''" "asc ''id'' \<noteq> asc ''resolvedBy''" "asc ''id'' \<noteq> asc ''resolvedDate''"
  by (simp_all add: asc_def)

lemma created_ids:
  assumes "asc ''id'' \<notin> fst ` set payload"
  shows "(\<forall>xs. matriculas (data w) = Some xs \<longrightarrow>
      (\<exists>r. fst (createEnrollment payload w) = Inr r \<and>
         getProp r (asc ''id'') = JStr (fst (generateId (asc ''MAT'') w)) \<and>
         matriculas (data (snd (createEnrollment payload w))) = Some (xs @ [r]))) \<and>
   (\<forall>xs. enfermeria_visitas (data w) = Some xs \<longrightarrow>
      (\<exists>r. fst (registerNurseVisit payload w) = Inr r \<and>
         getProp r (asc ''id'') = JStr (fst (generateId (asc ''NUR'') w)) \<and>
         enfermeria_visitas (data (snd (registerNurseVisit payload w))) = Some (xs @ [r]))) \<and>
   (\<forall>xs. citas_orientacion (data w) = Some xs \<longrightarrow>
      (\<exists>r. fst (createCounselingAppointment payload w) = Inr r \<and>
         getProp r (asc ''id'') = JStr (fst (generateId (asc ''CIT'') w)) \<and>
         citas_orientacion (data (snd (createCounselingAppointment payload w))) = Some (xs @ [r]))) \<and>
   (\<forall>xs. tickets_soporte (data w) = Some xs \<longrightarrow>
      (\<exists>r. fst (createTicket payload w) = Inr r \<and>
         getProp r (asc ''id'') = JStr (fst (generateId (asc ''TICK'') w)) \<and>
         tickets_soporte (data (snd (createTicket payload w))) = Some (xs @ [r]))) \<and>
   (getProp (fst (createEarlyAlert payload w)) (asc ''id'') = JStr (fst (generateId (asc ''ALT'') w)) \<and>
      (\<forall>xs. alertas_tempranas (data w) = Some xs \<longrightarrow>
         alertas_tempranas (data (snd (createEarlyAlert payload w))) = Some (xs @ [fst (createEarlyAlert payload w)]))) \<and>
   (getProp (fst (reserveBook payload w)) (asc ''id'') = JStr (fst (generateId (asc ''RES'') w)) \<and>
      (\<forall>xs. reservas_biblioteca (data w) = Some xs \<longrightarrow>
         reservas_biblioteca (data (snd (reserveBook payload w))) = Some (xs @ [fst (reserveBook payload w)]))) \<and>
   (getProp (fst (sendParentMessage payload w)) (asc ''id'') = JStr (fst (generateId (asc ''MSG'') w)) \<and>
      (\<forall>xs. mensajes_padres (data w) = Some xs \<longrightarrow>
         mensajes_padres (data (snd (sendParentMessage payload w))) = Some (xs @ [fst (sendParentMessage payload w)]))) \<and>
   (getProp (fst (registerVisitor payload w)) (asc ''id'') = JStr (fst (generateId (asc ''VISIT'') w)) \<and>
      (\<forall>xs. seguridad_visitas (data w) = Some xs \<longrightarrow>
         seguridad_visitas (data (snd (registerVisitor payload w))) = Some (xs @ [fst (registerVisitor payload w)]))) \<and>
   (getProp (fst (reportIncident payload w)) (asc ''id'') = JStr (fst (generateId (asc ''INC'') w)) \<and>
      (\<forall>xs. seguridad_incidentes (data w) = Some xs \<longrightarrow>
         seguridad_incidentes (data (snd (reportIncident payload w))) = Some (xs @ [fst (reportIncident payload w)]))) \<and>
   (getProp (fst (addNews payload w)) (asc ''id'') = JStr (fst (generateId (asc ''NEWS'') w)) \<and>
      (\<forall>xs. news (data w) = Some xs \<longrightarrow>
         news (data (snd (addNews payload w))) = Some (xs @ [fst (addNews payload w)])))"
  using assms
  by (simp add: createEnrollment_def registerNurseVisit_def createCounselingAppointment_def createTicket_def createEarlyAlert_def reserveBook_def sendParentMessage_def registerVisitor_def reportIncident_def addNews_def split_beta Let_def reads_keep_data
      getProp_objLit_first id_keys saveData_def simulateNotification_def)

lemma digit_bounds:
  fixes n :: nat
  shows "n mod 10 \<le> 9" and "n div 10 mod 10 \<le> 9" and "n \<le> 99 \<Longrightarrow> n div 10 \<le> 9"
    and "n < 1000 \<Longrightarrow> n div 100 \<le> 9"
proof -
  have "n mod 10 < 10" by simp
  then show "n mod 10 \<le> 9" by linarith
  have "n div 10 mod 10 < 10" by simp
  then show "n div 10 mod 10 \<le> 9" by linarith
  show "n \<le> 99 \<Longrightarrow> n div 10 \<le> 9"
    using div_le_mono [of n 99 10] by simp
  show "n < 1000 \<Longrightarrow> n div 100 \<le> 9"
    using div_le_mono [of n 999 100] by simp
qed

lemma two_digits:
  fixes a b :: nat
  assumes "a div 10 = b div 10" and "a mod 10 = b mod 10"
  shows "a = b"
  using assms by (metis div_mult_mod_eq)

lemma three_digits:
  fixes a b :: nat
  assumes "a div 100 = b div 100" and "a div 10 mod 10 = b div 10 mod 10" and "a mod 10 = b mod 10"
  shows "a = b"
proof -
  have "a div 10 div 10 = b div 10 div 10"
    using assms(1) by (simp add: div_mult2_eq [symmetric])
  then have "a div 10 = b div 10" using assms(2) by (rule two_digits)
  then show ?thesis using assms(3) by (rule two_digits)
qed

lemma mod_hundred:
  fixes a :: nat
  shows "a mod 100 div 10 = a div 10 mod 10" and "a mod 100 mod 10 = a mod 10"
proof -
  have "a mod 100 = 10 * (a div 10 mod 10) + a mod 10"
    using mod_mult2_eq [of a 10 10] by simp
  then show "a mod 100 div 10 = a div 10 mod 10" by simp
  show "a mod 100 mod 10 = a mod 10"
    by (simp add: mod_mod_cancel)
qed

lemma year_digits:
  fixes a b :: nat
  shows "(a div 10 mod 10 = b div 10 mod 10 \<and> a mod 10 = b mod 10) \<longleftrightarrow> a mod 100 = b mod 100"
proof
  assume "a div 10 mod 10 = b div 10 mod 10 \<and> a mod 10 = b mod 10"
  then have "a mod 100 div 10 = b mod 100 div 10" "a mod 100 mod 10 = b mod 100 mod 10"
    by (simp_all add: mod_hundred)
  then show "a mod 100 = b mod 100" by (rule two_digits)
next
  assume "a mod 100 = b mod 100"
  then have "a mod 100 div 10 = b mod 100 div 10" "a mod 100 mod 10 = b mod 100 mod 10"
    by simp_all
  then show "a div 10 mod 10 = b div 10 mod 10 \<and> a mod 10 = b mod 10"
    by (simp add: mod_hundred)
qed

text \<open>
  Claim C4, as the code has it. For a clock in the years 0 to 9999, \<open>generateId\<close> returns
  the prefix, a dash, the six digits of the day (two of the year, two of the month, two of
  the day), a dash and the three digits of the draw. Every operation that creates a record
  gives it this identifier (a payload with a field \<open>id\<close> of its own aside) and appends
  the record to its collection. Two identifiers with the same prefix are equal exactly when
  the day and the draw are the same: nothing looks for an identifier that is already in the
  collection, so two records of one collection are told apart by their identifiers only
  when they were created on different days or with different draws.
\<close>

theorem identifiers_spec:
  assumes "validInstant (shd (clock w))" and "validInstant (shd (clock w'))"
    and "asc ''id'' \<notin> fst ` set payload"
  shows "matchesIdPattern pfx (fst (generateId pfx w)) \<and>
   (fst (generateId pfx w) = fst (generateId pfx w') \<longleftrightarrow>
      utcFullYear (shd (clock w)) mod 100 = utcFullYear (shd (clock w')) mod 100 \<and>
      utcMonth (shd (clock w)) = utcMonth (shd (clock w')) \<and>
      utcDate (shd (clock w)) = utcDate (shd (clock w')) \<and>
      shd (rng w) mod 1000 = shd (rng w') mod 1000) \<and>
   (\<forall>reqs. solicitudes_documentos (data w) = Some reqs \<longrightarrow>
      (\<exists>r. fst (createDocumentRequest payload w) = Inr r \<and>
         req_id r = fst (generateId (asc ''DOC'') w) \<and>
         solicitudes_documentos (data (snd (createDocumentRequest payload w))) = Some (reqs @ [r]))) \<and>
   (\<forall>xs. matriculas (data w) = Some xs \<longrightarrow>
      (\<exists>r. fst (createEnrollment payload w) = Inr r \<and>
         getProp r (asc ''id'') = JStr (fst (generateId (asc ''MAT'') w)) \<and>
         matriculas (data (snd (createEnrollment payload w))) = Some (xs @ [r]))) \<and>
   (\<forall>xs. enfermeria_visitas (data w) = Some xs \<longrightarrow>
      (\<exists>r. fst (registerNurseVisit payload w) = Inr r \<and>
         getProp r (asc ''id'') = JStr (fst (generateId (asc ''NUR'') w)) \<and>
         enfermeria_visitas (data (snd (registerNurseVisit payload w))) = Some (xs @ [r]))) \<and>
   (\<forall>xs. citas_orientacion (data w) = Some xs \<longrightarrow>
      (\<exists>r. fst (createCounselingAppointment payload w) = Inr r \<and>
         getProp r (asc ''id'') = JStr (fst (generateId (asc ''CIT'') w)) \<and>
         citas_orientacion (data (snd (createCounselingAppointment payload w))) = Some (xs @ [r]))) \<and>
   (\<forall>xs. tickets_soporte (data w) = Some xs \<longrightarrow>
      (\<exists>r. fst (createTicket payload w) = Inr r \<and>
         getProp r (asc ''id'') = JStr (fst (generateId (asc ''TICK'') w)) \<and>
         tickets_soporte (data (snd (createTicket payload w))) = Some (xs @ [r]))) \<and>
   (getProp (fst (createEarlyAlert payload w)) (asc ''id'') = JStr (fst (generateId (asc ''ALT'') w)) \<and>
      (\<forall>xs. alertas_tempranas (data w) = Some xs \<longrightarrow>
         alertas_tempranas (data (snd (createEarlyAlert payload w))) = Some (xs @ [fst (createEarlyAlert payload w)]))) \<and>
   (getProp (fst (reserveBook payload w)) (asc ''id'') = JStr (fst (generateId (asc ''RES'') w)) \<and>
      (\<forall>xs. reservas_biblioteca (data w) = Some xs \<longrightarrow>
         reservas_biblioteca (data (snd (reserveBook payload w))) = Some (xs @ [fst (reserveBook payload w)]))) \<and>
   (getProp (fst (sendParentMessage payload w)) (asc ''id'') = JStr (fst (generateId (asc ''MSG'') w)) \<and>
      (\<forall>xs. mensajes_padres (data w) = Some xs \<longrightarrow>
         mensajes_padres (data (snd (sendParentMessage payload w))) = Some (xs @ [fst (sendParentMessage payload w)]))) \<and>
   (getProp (fst (registerVisitor payload w)) (asc ''id'') = JStr (fst (generateId (asc ''VISIT'') w)) \<and>
      (\<forall>xs. seguridad_visitas (data w) = Some xs \<longrightarrow>
         seguridad_visitas (data (snd (registerVisitor payload w))) = Some (xs @ [fst (registerVisitor payload w)]))) \<and>
   (getProp (fst (reportIncident payload w)) (asc ''id'') = JStr (fst (generateId (asc ''INC'') w)) \<and>
      (\<forall>xs. seguridad_incidentes (data w) = Some xs \<longrightarrow>
         seguridad_incidentes (data (snd (reportIncident payload w))) = Some (xs @ [fst (reportIncident payload w)]))) \<and>
   (getProp (fst (addNews payload w)) (asc ''id'') = JStr (fst (generateId (asc ''NEWS'') w)) \<and>
      (\<forall>xs. news (data w) = Some xs \<longrightarrow>
         news (data (snd (addNews payload w))) = Some (xs @ [fst (addNews payload w)])))"
proof -
  let ?y = "utcFullYear (shd (clock w))" and ?y' = "utcFullYear (shd (clock w'))"
  let ?m = "utcMonth (shd (clock w))" and ?m' = "utcMonth (shd (clock w'))"
  let ?d = "utcDate (shd (clock w))" and ?d' = "utcDate (shd (clock w'))"
  let ?r = "shd (rng w) mod 1000" and ?r' = "shd (rng w') mod 1000"
  have bounds: "?m \<le> 99" "?d \<le> 99" "?r < 1000"
    using assms(1) by (simp_all add: validInstant_def)
  have digits: "?y div 10 mod 10 \<le> 9" "?y mod 10 \<le> 9" "?m div 10 \<le> 9" "?m mod 10 \<le> 9"
    "?d div 10 \<le> 9" "?d mod 10 \<le> 9" "?r div 100 \<le> 9" "?r div 10 mod 10 \<le> 9" "?r mod 10 \<le> 9"
    using bounds digit_bounds [of ?y] digit_bounds [of ?m] digit_bounds [of ?d] digit_bounds [of ?r]
    by blast+
  have pattern: "matchesIdPattern pfx (fst (generateId pfx w))"
    using digits
    by (simp add: generateId_valid [OF assms(1)] matchesIdPattern_def isDigit_def asc_def
        del: mod_mod_trivial)
  have eq: "fst (generateId pfx w) = fst (generateId pfx w') \<longleftrightarrow>
          (?y div 10 mod 10 = ?y' div 10 mod 10 \<and> ?y mod 10 = ?y' mod 10) \<and>
          (?m div 10 = ?m' div 10 \<and> ?m mod 10 = ?m' mod 10) \<and>
          (?d div 10 = ?d' div 10 \<and> ?d mod 10 = ?d' mod 10) \<and>
          (?r div 100 = ?r' div 100 \<and> ?r div 10 mod 10 = ?r' div 10 mod 10 \<and> ?r mod 10 = ?r' mod 10)"
    by (simp add: generateId_valid [OF assms(1)] generateId_valid [OF assms(2)] del: mod_mod_trivial)
  have y: "(?y div 10 mod 10 = ?y' div 10 mod 10 \<and> ?y mod 10 = ?y' mod 10) \<longleftrightarrow>
             ?y mod 100 = ?y' mod 100"
    by (rule year_digits)
  have m: "(?m div 10 = ?m' div 10 \<and> ?m mod 10 = ?m' mod 10) \<longleftrightarrow> ?m = ?m'"
    using two_digits [of ?m ?m'] by auto
  have d: "(?d div 10 = ?d' div 10 \<and> ?d mod 10 = ?d' mod 10) \<longleftrightarrow> ?d = ?d'"
    using two_digits [of ?d ?d'] by auto
  have r: "(?r div 100 = ?r' div 100 \<and> ?r div 10 mod 10 = ?r' div 10 mod 10 \<and> ?r mod 10 = ?r' mod 10)
             \<longleftrightarrow> ?r = ?r'"
    using three_digits [of ?r ?r'] by auto
  have same: "fst (generateId pfx w) = fst (generateId pfx w') \<longleftrightarrow>
      ?y mod 100 = ?y' mod 100 \<and> ?m = ?m' \<and> ?d = ?d' \<and> ?r = ?r'"
    using eq y m d r by blast
  have doc: "\<forall>reqs. solicitudes_documentos (data w) = Some reqs \<longrightarrow>
      (\<exists>r. fst (createDocumentRequest payload w) = Inr r \<and>
         req_id r = fst (generateId (asc ''DOC'') w) \<and>
         solicitudes_documentos (data (snd (createDocumentRequest payload w))) = Some (reqs @ [r]))"
    by (simp add: createDocumentRequest_def split_beta Let_def reads_keep_data saveData_def
        simulateNotification_def)
  show ?thesis
    using pattern same doc created_ids [OF assms(3), of w] by blast
qed

lemma emptyWorld_reads:
  "clock emptyWorld = sconst exampleInstant" "rng emptyWorld = sconst 7"
  by (simp_all add: emptyWorld_def newServiceManager_def)

lemma exampleInstant_valid: "validInstant exampleInstant"
  by (simp add: validInstant_def exampleInstant_def)

theorem identifiers_spec_witness:
  "validInstant (shd (clock emptyWorld)) \<and>
   fst (generateId (asc ''DOC'') emptyWorld) = asc ''DOC-261103-007'' \<and>
   matchesIdPattern (asc ''DOC'') (fst (generateId (asc ''DOC'') emptyWorld)) \<and>
   fst (generateId (asc ''DOC'') emptyWorld)
     \<noteq> fst (generateId (asc ''DOC'') (emptyWorld\<lparr>rng := sconst 8\<rparr>)) \<and>
   (\<exists>r. fst (createDocumentRequest [] emptyWorld) = Inr r \<and> req_id r = asc ''DOC-261103-007'')"
proof -
  have v: "validInstant (shd (clock emptyWorld))"
    "validInstant (shd (clock (emptyWorld\<lparr>rng := sconst 8\<rparr>)))"
    by (simp_all add: emptyWorld_reads exampleInstant_valid)
  have k: "asc ''id'' \<notin> fst ` set []" by simp
  have i: "fst (generateId (asc ''DOC'') emptyWorld) = asc ''DOC-261103-007''"
    by (simp add: generateId_valid [OF v(1)] emptyWorld_reads exampleInstant_def asc_def)
  have d: "solicitudes_documentos (data emptyWorld) = Some []"
    by (simp add: emptyWorld_data freshDocument_def)
  note spec = identifiers_spec [OF v k, of "asc ''DOC''"]
  from spec have p: "matchesIdPattern (asc ''DOC'') (fst (generateId (asc ''DOC'') emptyWorld))"
    by blast
  from spec have "fst (generateId (asc ''DOC'') emptyWorld)
        = fst (generateId (asc ''DOC'') (emptyWorld\<lparr>rng := sconst 8\<rparr>)) \<longleftrightarrow>
      utcFullYear (shd (clock emptyWorld)) mod 100
        = utcFullYear (shd (clock (emptyWorld\<lparr>rng := sconst 8\<rparr>))) mod 100 \<and>
      utcMonth (shd (clock emptyWorld)) = utcMonth (shd (clock (emptyWorld\<lparr>rng := sconst 8\<rparr>))) \<and>
      utcDate (shd (clock emptyWorld)) = utcDate (shd (clock (emptyWorld\<lparr>rng := sconst 8\<rparr>))) \<and>
      shd (rng emptyWorld) mod 1000 = shd (rng (emptyWorld\<lparr>rng := sconst 8\<rparr>)) mod 1000"
    by blast
  then have n: "fst (generateId (asc ''DOC'') emptyWorld)
      \<noteq> fst (generateId (asc ''DOC'') (emptyWorld\<lparr>rng := sconst 8\<rparr>))"
    by (simp add: emptyWorld_reads)
  from spec d have "\<exists>r. fst (createDocumentRequest [] emptyWorld) = Inr r \<and>
      req_id r = fst (generateId (asc ''DOC'') emptyWorld)"
    by blast
  with i have c: "\<exists>r. fst (createDocumentRequest [] emptyWorld) = Inr r \<and>
      req_id r = asc ''DOC-261103-007''"
    by simp
  from v(1) i p n c show ?thesis by blast
qed

text \<open>
  Claim C4, as it is written, fails: on a clock that stands still and a random source
  that repeats itself, two requests created one after the other are two records of the
  collection with one identifier.
\<close>

theorem identifier_collision:
  "\<exists>r1 w1 r2 w2.
     createDocumentRequest [(asc ''studentName'', JStr (asc ''Ana''))] emptyWorld = (Inr r1, w1) \<and>
     createDocumentRequest [(asc ''studentName'', JStr (asc ''Luis''))] w1 = (Inr r2, w2) \<and>
     r1 \<noteq> r2 \<and> req_id r1 = req_id r2 \<and>
     solicitudes_documentos (data w2) = Some [r1, r2]"
  by (simp add: createDocumentRequest_def generateId_def nowISO_def randomBelow_def saveData_def
      simulateNotification_def emptyWorld_def newServiceManager_def loadData_def freshDocument_def
      getProp_def asc_def Let_def)

subsection \<open>Loading, and collections that are missing\<close>




subsection \<open>What the two patterns capture\<close>



















subsection \<open>Rule 1: a day of a month\<close>




lemma date_answer:
  assumes "rx_exec dateRx (toLowerCase query) = Some caps"
  shows "getAIResponse query w =
           (dateAnswer (group (toLowerCase query) caps 1) (group (toLowerCase query) caps 2), w)"
  using assms by (simp add: getAIResponse_def Let_def)






subsection \<open>Rule 2: a month\<close>

lemma month_answer:
  assumes "rx_exec dateRx (toLowerCase query) = None"
    and "rx_exec monthOnlyRx (toLowerCase query) = Some caps"
  shows "getAIResponse query w =
           (if monthQueryApplies query (toLowerCase query) (group (toLowerCase query) caps 1)
            then (monthAnswer (group (toLowerCase query) caps 1), w)
            else cascade (toLowerCase query) w)"
  using assms by (simp add: getAIResponse_def Let_def)

lemma marzo: "getAIResponse (asc ''marzo'') w = ([55357, 56517] @ asc '' <strong>Eventos de Marzo</strong>:<br><br>'' @ [8226]
      @ asc '' 2 de marzo: D'' @ [237] @ asc ''a festivo<br>'' @ [8226]
      @ asc '' 16 de marzo: Assessment<br>'' @ [8226]
      @ asc '' 20 de marzo: Reuniones profesionales (tarde)<br>'' @ [8226]
      @ asc '' 23 de marzo: D'' @ [237] @ asc ''a festivo<br>'' @ [8226]
      @ asc '' 27 de marzo: Entrega del informe de progreso acad'' @ [233] @ asc ''mico'', w)"
  by code_simp



subsection \<open>The last line\<close>

lemma after_rules:
  assumes "\<not> dateRule (toLowerCase query)" and "\<not> monthRule query (toLowerCase query)"
  shows "getAIResponse query w = cascade (toLowerCase query) w"
  using assms
  by (simp add: getAIResponse_def dateRule_def monthRule_def rx_test_def Let_def
      split: option.splits)





subsection \<open>Greetings\<close>

lemma pick_member:
  assumes "xs \<noteq> []"
  shows "fst (pick xs w) \<in> set xs \<and> data (snd (pick xs w)) = data w \<and>
         storage (snd (pick xs w)) = storage w"
proof -
  have "shd (rng w) mod length xs < length xs"
    using assms by simp
  then show ?thesis
    by (simp add: pick_def randomBelow_def)
qed

lemma greetings_pool: "length greetings = 4 \<and> firstGreetingText \<notin> set greetings"
  by code_simp

lemma rules_texts:
  "list_all (\<lambda>r. case snd r of
                   Fixed t \<Rightarrow> t \<noteq> firstGreetingText
                 | Pool ts \<Rightarrow> ts \<noteq> [] \<and> list_all (\<lambda>t. t \<noteq> firstGreetingText) ts) rules"
  by code_simp

lemma fallback_differs: "fallbackText \<noteq> firstGreetingText"
  by code_simp


lemma dateAnswer_differs: "dateAnswer a b \<noteq> firstGreetingText"
proof -
  have "hd (dateAnswer a b) = 55357"
    by (simp add: dateAnswer_def noEventsOnDate_def Let_def)
  moreover have "hd firstGreetingText = 161"
    by (simp add: firstGreetingText_def)
  ultimately show ?thesis by auto
qed

lemma monthAnswer_differs: "monthAnswer a \<noteq> firstGreetingText"
proof -
  have "hd (monthAnswer a) = 55357"
    by (simp add: monthAnswer_def Let_def)
  moreover have "hd firstGreetingText = 161"
    by (simp add: firstGreetingText_def)
  ultimately show ?thesis by auto
qed

lemma find_member: "find P xs = Some x \<Longrightarrow> x \<in> set xs"
  by (induction xs) (auto split: if_splits)

lemma answer_differs:
  assumes "r \<in> set rules"
  shows "fst (answer (snd r) w) \<noteq> firstGreetingText \<and> data (snd (answer (snd r) w)) = data w \<and>
         storage (snd (answer (snd r) w)) = storage w"
proof (cases "snd r")
  case (Fixed t)
  from assms rules_texts have "case snd r of
      Fixed t \<Rightarrow> t \<noteq> firstGreetingText
    | Pool ts \<Rightarrow> ts \<noteq> [] \<and> list_all (\<lambda>t. t \<noteq> firstGreetingText) ts"
    by (simp add: list_all_iff)
  with Fixed have "t \<noteq> firstGreetingText"
    by simp
  with Fixed show ?thesis by (simp add: answer_def)
next
  case (Pool ts)
  from assms rules_texts have "case snd r of
      Fixed t \<Rightarrow> t \<noteq> firstGreetingText
    | Pool ts \<Rightarrow> ts \<noteq> [] \<and> list_all (\<lambda>t. t \<noteq> firstGreetingText) ts"
    by (simp add: list_all_iff)
  with Pool have "ts \<noteq> []" "firstGreetingText \<notin> set ts"
    by (auto simp add: list_all_iff)
  with Pool pick_member [of ts w] show ?thesis by (auto simp add: answer_def)
qed

lemma greet_first:
  assumes "firstGreeting (data w) = Some True"
  shows "greet w = (firstGreetingText,
           w\<lparr>data := (data w)\<lparr>firstGreeting := Some False\<rparr>,
             storage := Some ((data w)\<lparr>firstGreeting := Some False\<rparr>)\<rparr>)"
  using assms by (simp add: greet_def saveData_def)

lemma greet_again:
  assumes "firstGreeting (data w) \<noteq> Some True"
  shows "fst (greet w) \<in> set greetings \<and> fst (greet w) \<noteq> firstGreetingText \<and>
         data (snd (greet w)) = data w \<and> storage (snd (greet w)) = storage w"
proof -
  have "greetings \<noteq> []" using greetings_pool by auto
  from pick_member [OF this, of w] assms greetings_pool show ?thesis
    by (auto simp add: greet_def)
qed

lemma cascade_greeting: "isGreeting lowerQ \<Longrightarrow> cascade lowerQ w = greet w"
  by (simp add: cascade_def)

lemma hola_rules:
  "\<not> dateRule (toLowerCase (asc ''Hola''))" "\<not> monthRule (asc ''Hola'') (toLowerCase (asc ''Hola''))"
  "isGreeting (toLowerCase (asc ''Hola''))"
  by code_simp+

text \<open>
  Claim C1, as the code has it. A text with a greeting that rules 1 and 2 leave unanswered
  gets the introduction when the flag is true; the flag is then false in the document, and
  the document is saved. When the flag is not true, it gets one of the four texts of the
  pool, none of which is the introduction, and the document and the storage stay as they
  are. \<open>Hola\<close> is such a text.
\<close>

theorem greeting_spec:
  "(\<not> dateRule (toLowerCase query) \<and> \<not> monthRule query (toLowerCase query) \<and>
    isGreeting (toLowerCase query) \<longrightarrow>
      (firstGreeting (data w) = Some True \<longrightarrow>
         getAIResponse query w =
           (firstGreetingText,
            w\<lparr>data := (data w)\<lparr>firstGreeting := Some False\<rparr>,
              storage := Some ((data w)\<lparr>firstGreeting := Some False\<rparr>)\<rparr>)) \<and>
      (firstGreeting (data w) \<noteq> Some True \<longrightarrow>
         fst (getAIResponse query w) \<in> set greetings \<and>
         fst (getAIResponse query w) \<noteq> firstGreetingText \<and>
         data (snd (getAIResponse query w)) = data w \<and>
         storage (snd (getAIResponse query w)) = storage w)) \<and>
   length greetings = 4 \<and> firstGreetingText \<notin> set greetings \<and>
   \<not> dateRule (toLowerCase (asc ''Hola'')) \<and>
   \<not> monthRule (asc ''Hola'') (toLowerCase (asc ''Hola'')) \<and>
   isGreeting (toLowerCase (asc ''Hola''))"
proof -
  have "getAIResponse query w = greet w"
    if "\<not> dateRule (toLowerCase query)" "\<not> monthRule query (toLowerCase query)"
      "isGreeting (toLowerCase query)"
    using that by (simp add: after_rules cascade_greeting)
  then show ?thesis
    using greet_first [of w] greet_again [of w] greetings_pool hola_rules by auto
qed

lemma emptyWorld_flag: "firstGreeting (data emptyWorld) = Some True"
  by (simp add: emptyWorld_data freshDocument_def)

theorem greeting_spec_witness:
  "isGreeting (toLowerCase (asc ''Hola'')) \<and> firstGreeting (data emptyWorld) = Some True \<and>
   fst (getAIResponse (asc ''Hola'') emptyWorld) = firstGreetingText \<and>
   firstGreeting (data (snd (getAIResponse (asc ''Hola'') emptyWorld))) = Some False \<and>
   storage (snd (getAIResponse (asc ''Hola'') emptyWorld))
     = Some (data (snd (getAIResponse (asc ''Hola'') emptyWorld))) \<and>
   fst (getAIResponse (asc ''Hola'') (snd (getAIResponse (asc ''Hola'') emptyWorld))) \<in> set greetings \<and>
   fst (getAIResponse (asc ''Hola'') (snd (getAIResponse (asc ''Hola'') emptyWorld)))
     \<noteq> firstGreetingText"
proof -
  let ?w1 = "emptyWorld\<lparr>data := (data emptyWorld)\<lparr>firstGreeting := Some False\<rparr>,
               storage := Some ((data emptyWorld)\<lparr>firstGreeting := Some False\<rparr>)\<rparr>"
  from greeting_spec [of "asc ''Hola''" emptyWorld] emptyWorld_flag
  have 1: "getAIResponse (asc ''Hola'') emptyWorld = (firstGreetingText, ?w1)"
    by blast
  have "firstGreeting (data ?w1) \<noteq> Some True" by simp
  with greeting_spec [of "asc ''Hola''" ?w1]
  have 2: "fst (getAIResponse (asc ''Hola'') ?w1) \<in> set greetings"
    "fst (getAIResponse (asc ''Hola'') ?w1) \<noteq> firstGreetingText"
    by blast+
  from 1 2 hola_rules(3) emptyWorld_flag show ?thesis by simp
qed

text \<open>
  Claim C1, as it is written, fails for a text that holds a greeting and a date: rule 1
  comes first, its answer is not the introduction, and the flag stays true.
\<close>

lemma hola_date: "getAIResponse (asc ''hola 2 de marzo'') w = ([55357, 56517] @ asc '' El 2 de marzo: D'' @ [237] @ asc ''a festivo.'', w)"
  by code_simp

lemma hola_date_greets: "isGreeting (toLowerCase (asc ''hola 2 de marzo''))"
  by code_simp

theorem greeting_after_date:
  "isGreeting (toLowerCase (asc ''hola 2 de marzo'')) \<and>
   firstGreeting (data emptyWorld) = Some True \<and>
   fst (getAIResponse (asc ''hola 2 de marzo'') emptyWorld) \<noteq> firstGreetingText \<and>
   firstGreeting (data (snd (getAIResponse (asc ''hola 2 de marzo'') emptyWorld))) = Some True \<and>
   getAIResponse (asc ''hola 2 de marzo'') emptyWorld = ([55357, 56517] @ asc '' El 2 de marzo: D'' @ [237] @ asc ''a festivo.'', emptyWorld)"
proof -
  have "[55357, 56517] @ asc '' El 2 de marzo: D'' @ [237] @ asc ''a festivo.'' \<noteq> firstGreetingText"
    by code_simp
  with hola_date [of emptyWorld] hola_date_greets emptyWorld_flag show ?thesis by simp
qed

subsection \<open>The introduction is given once\<close>

lemma ai_cases:
  "(fst (getAIResponse q w) = firstGreetingText \<and> firstGreeting (data w) = Some True \<and>
      snd (getAIResponse q w) =
        w\<lparr>data := (data w)\<lparr>firstGreeting := Some False\<rparr>,
          storage := Some ((data w)\<lparr>firstGreeting := Some False\<rparr>)\<rparr>) \<or>
   (fst (getAIResponse q w) \<noteq> firstGreetingText \<and> data (snd (getAIResponse q w)) = data w \<and>
      storage (snd (getAIResponse q w)) = storage w)"
proof -
  let ?lq = "toLowerCase q"
  let ?thesis = "(fst (getAIResponse q w) = firstGreetingText \<and> firstGreeting (data w) = Some True \<and>
      snd (getAIResponse q w) =
        w\<lparr>data := (data w)\<lparr>firstGreeting := Some False\<rparr>,
          storage := Some ((data w)\<lparr>firstGreeting := Some False\<rparr>)\<rparr>) \<or>
   (fst (getAIResponse q w) \<noteq> firstGreetingText \<and> data (snd (getAIResponse q w)) = data w \<and>
      storage (snd (getAIResponse q w)) = storage w)"
  have rest: ?thesis if rest: "getAIResponse q w = cascade ?lq w"
  proof (cases "isGreeting ?lq")
    case True
    with rest have g: "getAIResponse q w = greet w" by (simp add: cascade_greeting)
    show ?thesis
    proof (cases "firstGreeting (data w) = Some True")
      case True
      with g greet_first [OF True] show ?thesis by simp
    next
      case False
      with g greet_again [OF False] show ?thesis by simp
    qed
  next
    case False
    show ?thesis
    proof (cases "find (\<lambda>r. fst r ?lq) rules")
      case None
      with rest False show ?thesis by (simp add: cascade_def fallback_differs)
    next
      case (Some r)
      then have "r \<in> set rules" by (rule find_member)
      from answer_differs [OF this, of w] rest False Some show ?thesis
        by (simp add: cascade_def)
    qed
  qed
  show ?thesis
  proof (cases "rx_exec dateRx ?lq")
    case (Some caps)
    then show ?thesis by (simp add: date_answer dateAnswer_differs)
  next
    case None
    show ?thesis
    proof (cases "rx_exec monthOnlyRx ?lq")
      case None
      with \<open>rx_exec dateRx ?lq = None\<close> have "getAIResponse q w = cascade ?lq w"
        by (simp add: getAIResponse_def Let_def)
      then show ?thesis by (rule rest)
    next
      case (Some caps)
      show ?thesis
      proof (cases "monthQueryApplies q ?lq (group ?lq caps 1)")
        case True
        with \<open>rx_exec dateRx ?lq = None\<close> Some show ?thesis
          by (simp add: month_answer monthAnswer_differs del: One_nat_def)
      next
        case False
        with \<open>rx_exec dateRx ?lq = None\<close> Some have "getAIResponse q w = cascade ?lq w"
          by (simp add: month_answer del: One_nat_def)
        then show ?thesis by (rule rest)
      qed
    qed
  qed
qed

lemma frame:
  assumes "\<forall>q. x \<noteq> GetAIResponse q" and "x \<noteq> Reload"
  shows "firstGreeting (data (snd (perform x w))) = firstGreeting (data w) \<and>
         fst (perform x w) = None \<and>
         (storage (snd (perform x w)) = storage w \<or>
          storage (snd (perform x w)) = Some (data (snd (perform x w))))"
  using assms
  by (cases x)
     (simp_all add: saveData_def generateId_def nowISO_def randomBelow_def
        createDocumentRequest_def updateRequestStatus_def createEnrollment_def
        registerNurseVisit_def createCounselingAppointment_def createEarlyAlert_def
        createTicket_def logWBLHours_def reserveBook_def sendParentMessage_def
        registerVisitor_def checkoutVisitor_def reportIncident_def addNews_def deleteNews_def
        simulateNotification_def addTicket_def getAllTickets_def updateTicket_def
        resolveTicket_def saveTechScore_def getTechScore_def split_beta Let_def
        split: option.splits jsval.splits)


lemma greeted_kept:
  assumes "greeted w"
  shows "greeted (snd (perform x w)) \<and> fst (perform x w) \<noteq> Some firstGreetingText"
proof (cases "\<exists>q. x = GetAIResponse q")
  case True
  then obtain q where x: "x = GetAIResponse q" by blast
  from assms have "firstGreeting (data w) \<noteq> Some True" by (simp add: greeted_def)
  with ai_cases [of q w] have "fst (getAIResponse q w) \<noteq> firstGreetingText"
    "data (snd (getAIResponse q w)) = data w" "storage (snd (getAIResponse q w)) = storage w"
    by auto
  with assms x show ?thesis by (simp add: greeted_def)
next
  case False
  show ?thesis
  proof (cases "x = Reload")
    case True
    with assms show ?thesis
      by (auto simp add: greeted_def newServiceManager_def loadData_def split: option.splits)
  next
    case notReload: False
    from False have "\<forall>q. x \<noteq> GetAIResponse q" by blast
    from frame [OF this notReload, of w] assms show ?thesis
      by (auto simp add: greeted_def split: option.splits)
  qed
qed

lemma greeted_answers: "greeted w \<Longrightarrow> firstGreetingText \<notin> set (answers xs w)"
proof (induction xs arbitrary: w)
  case Nil
  then show ?case by simp
next
  case (Cons x xs)
  from greeted_kept [OF Cons.prems, of x]
  have "greeted (snd (perform x w))" "fst (perform x w) \<noteq> Some firstGreetingText"
    by simp_all
  with Cons.IH [of "snd (perform x w)"] show ?case
    by (auto split: option.splits)
qed

lemma first_answer_greets:
  assumes "fst (perform x w) = Some firstGreetingText"
  shows "firstGreeting (data w) = Some True \<and> greeted (snd (perform x w))"
proof -
  from assms obtain q where x: "x = GetAIResponse q"
    by (cases x) simp_all
  with assms have "fst (getAIResponse q w) = firstGreetingText" by simp
  with ai_cases [of q w] x show ?thesis
    by (auto simp add: greeted_def)
qed

lemma answers_once: "count_list (answers xs w) firstGreetingText \<le> 1"
proof (induction xs arbitrary: w)
  case Nil
  then show ?case by simp
next
  case (Cons x xs)
  show ?case
  proof (cases "fst (perform x w) = Some firstGreetingText")
    case True
    from first_answer_greets [OF True] have "greeted (snd (perform x w))" by simp
    then have "firstGreetingText \<notin> set (answers xs (snd (perform x w)))"
      by (rule greeted_answers)
    then have "count_list (answers xs (snd (perform x w))) firstGreetingText = 0"
      by (simp add: count_list_0_iff)
    with True show ?thesis by simp
  next
    case False
    with Cons.IH [of "snd (perform x w)"] show ?thesis
      by (auto split: option.splits)
  qed
qed

text \<open>
  Claim C9. A step other than a reload leaves the flag as it is, except the first greeting
  of the assistant, which finds the flag true and makes it false. The introduction is
  returned only by a step that found the flag true, and this step leaves the session in a
  state (the flag is true neither in the document nor in the saved document) that every
  step keeps, a reload included, and in which no step returns the introduction. So the
  answers of a sequence of steps, from any state, hold the introduction at most once.
\<close>

theorem first_greeting_once:
  "(x \<noteq> Reload \<longrightarrow>
      firstGreeting (data (snd (perform x w))) = firstGreeting (data w) \<or>
      (firstGreeting (data w) = Some True \<and>
       firstGreeting (data (snd (perform x w))) = Some False \<and>
       fst (perform x w) = Some firstGreetingText)) \<and>
   (fst (perform x w) = Some firstGreetingText \<longrightarrow>
      firstGreeting (data w) = Some True \<and> greeted (snd (perform x w))) \<and>
   (greeted w \<longrightarrow> greeted (snd (perform x w)) \<and> fst (perform x w) \<noteq> Some firstGreetingText) \<and>
   count_list (answers xs w) firstGreetingText \<le> 1"
proof -
  have writes: "firstGreeting (data (snd (perform x w))) = firstGreeting (data w) \<or>
      (firstGreeting (data w) = Some True \<and>
       firstGreeting (data (snd (perform x w))) = Some False \<and>
       fst (perform x w) = Some firstGreetingText)" if "x \<noteq> Reload"
  proof (cases "\<exists>q. x = GetAIResponse q")
    case True
    then obtain q where "x = GetAIResponse q" by blast
    with ai_cases [of q w] show ?thesis by auto
  next
    case False
    then have "\<forall>q. x \<noteq> GetAIResponse q" by blast
    from frame [OF this that, of w] show ?thesis by simp
  qed
  show ?thesis
    using writes first_answer_greets [of x w] greeted_kept [of w x] answers_once [of xs w]
    by blast
qed

lemma hola_first:
  "getAIResponse (asc ''Hola'') emptyWorld =
     (firstGreetingText,
      emptyWorld\<lparr>data := (data emptyWorld)\<lparr>firstGreeting := Some False\<rparr>,
        storage := Some ((data emptyWorld)\<lparr>firstGreeting := Some False\<rparr>)\<rparr>)"
  using hola_rules emptyWorld_flag
  by (simp add: after_rules cascade_greeting greet_first)

theorem first_greeting_once_witness:
  "firstGreeting (data emptyWorld) = Some True \<and>
   fst (perform (GetAIResponse (asc ''Hola'')) emptyWorld) = Some firstGreetingText \<and>
   firstGreeting (data (snd (perform (GetAIResponse (asc ''Hola'')) emptyWorld))) = Some False \<and>
   greeted (after [GetAIResponse (asc ''Hola''), Reload] emptyWorld) \<and>
   fst (perform (GetAIResponse (asc ''Hola'')) (after [GetAIResponse (asc ''Hola''), Reload] emptyWorld))
     \<noteq> Some firstGreetingText \<and>
   count_list (answers [GetAIResponse (asc ''Hola''), Reload, GetAIResponse (asc ''Hola'')] emptyWorld)
     firstGreetingText = 1"
proof -
  let ?hola = "GetAIResponse (asc ''Hola'')"
  let ?w1 = "snd (perform ?hola emptyWorld)"
  let ?w2 = "snd (perform Reload ?w1)"
  have a: "fst (perform ?hola emptyWorld) = Some firstGreetingText"
    by (simp add: hola_first)
  have f: "firstGreeting (data ?w1) = Some False"
    by (simp add: hola_first)
  from first_greeting_once [of ?hola emptyWorld "[]"] a have g1: "greeted ?w1"
    by blast
  with first_greeting_once [of Reload ?w1 "[]"] have g2: "greeted ?w2"
    by blast
  with first_greeting_once [of ?hola ?w2 "[]"]
  have n: "fst (perform ?hola ?w2) \<noteq> Some firstGreetingText"
    by blast
  have w2: "after [?hola, Reload] emptyWorld = ?w2"
    by simp
  from first_greeting_once [of ?hola emptyWorld "[?hola, Reload, ?hola]"]
  have "count_list (answers [?hola, Reload, ?hola] emptyWorld) firstGreetingText \<le> 1"
    by blast
  moreover have "count_list (answers [?hola, Reload, ?hola] emptyWorld) firstGreetingText \<ge> 1"
    using a by simp
  ultimately have c: "count_list (answers [?hola, Reload, ?hola] emptyWorld) firstGreetingText = 1"
    by linarith
  from emptyWorld_flag a f g2 n c w2 show ?thesis
    by simp
qed

end
